theory Spec2Isabelle
  imports Complex_Main
begin

section \<open>Arrays, errors and coordinate objects\<close>

text \<open>
  An N-dimensional array of the numeric library is its shape together with its elements,
  read by a multi-index (one natural number per axis). Only the elements at in-range
  indices are meaningful. All arithmetic is over the reals (complex numbers for the
  Fourier-space grids): floating-point rounding is outside this development.
\<close>

record 'a ndarray =
  shape :: "nat list"
  item :: "nat list \<Rightarrow> 'a"

definition ndim :: "('a, 'z) ndarray_scheme \<Rightarrow> nat" where
  "ndim a = length (shape a)"

text \<open>
  The exceptions of the source, with their messages. \<open>IndexError\<close> is the array
  library's refusal of an index into an axis of extent 0. \<open>ArrayLibraryError\<close> stands
  for an exception raised inside the numeric library itself (for instance on a request
  for an array of negative extent); its Python class is decided outside this repository.
\<close>

datatype error =
    ValueError string
  | NotImplementedError string
  | TypeError string
  | IndexError
  | ArrayLibraryError

text \<open>Python's decimal rendering of a non-negative integer, as \<open>str.format\<close> gives it.\<close>

fun string_of_nat :: "nat \<Rightarrow> string" where
  "string_of_nat n =
     (if n < 10 then [''0123456789'' ! n]
      else string_of_nat (n div 10) @ [''0123456789'' ! (n mod 10)])"

declare string_of_nat.simps [simp del]

text \<open>
  Modelled from the spec: the coordinate objects \<open>FrequencySlice\<close>, \<open>CoordinateGrid\<close> and
  \<open>CoordinateList\<close> (module \<open>cryojax.coordinates\<close>) are value objects that pair a numeric
  array with static metadata, and \<open>get\<close> returns the array. The metadata is carried by
  the extension part of the record.
\<close>

record coordinates =
  array :: "real ndarray"

definition get :: "'z coordinates_scheme \<Rightarrow> real ndarray" where
  "get c = array c"

text \<open>
  The pose capability \<open>pose.rotate_coordinates(coordinates, inverse)\<close>: the pose classes
  are external to the potential representations, so a pose is the function it provides.
\<close>

type_synonym pose = "real ndarray \<Rightarrow> bool \<Rightarrow> real ndarray"

definition rotate_coordinates :: "pose \<Rightarrow> real ndarray \<Rightarrow> bool \<Rightarrow> real ndarray" where
  "rotate_coordinates p coords inverse_flag = p coords inverse_flag"


section \<open>Voxel potential representations\<close>

text \<open>The class hierarchy of \<open>_voxel_potential.py\<close>, as extensible records.\<close>

record AbstractVoxelPotential =
  voxel_size :: real

record 'm AbstractFourierVoxelGrid = AbstractVoxelPotential +
  frequency_slice :: "'m coordinates_scheme"

record 'm FourierVoxelGrid = "'m AbstractFourierVoxelGrid" +
  fourier_voxel_grid :: "complex ndarray"

record 'm FourierVoxelGridInterpolator = "'m AbstractFourierVoxelGrid" +
  coefficients :: "complex ndarray"

record 'm RealVoxelGrid = AbstractVoxelPotential +
  real_voxel_grid :: "real ndarray"
  coordinate_grid :: "'m coordinates_scheme"

record 'm RealVoxelCloud = AbstractVoxelPotential +
  voxel_weights :: "real ndarray"
  coordinate_list :: "'m coordinates_scheme"

text \<open>
  \<open>AbstractFourierVoxelGrid.rotate_to_pose\<close>, inherited by both Fourier-space classes:
  \<open>eqx.tree_at\<close> replaces the leaf \<open>frequency_slice.array\<close> and nothing else.
\<close>

definition AbstractFourierVoxelGrid_rotate_to_pose ::
  "('m, 'z) AbstractFourierVoxelGrid_scheme \<Rightarrow> pose \<Rightarrow> ('m, 'z) AbstractFourierVoxelGrid_scheme" where
  "AbstractFourierVoxelGrid_rotate_to_pose self p =
     self\<lparr>frequency_slice :=
       (frequency_slice self)\<lparr>array := rotate_coordinates p (get (frequency_slice self)) True\<rparr>\<rparr>"

definition RealVoxelGrid_rotate_to_pose ::
  "('m, 'z) RealVoxelGrid_scheme \<Rightarrow> pose \<Rightarrow> ('m, 'z) RealVoxelGrid_scheme" where
  "RealVoxelGrid_rotate_to_pose self p =
     self\<lparr>coordinate_grid :=
       (coordinate_grid self)\<lparr>array := rotate_coordinates p (get (coordinate_grid self)) False\<rparr>\<rparr>"

definition RealVoxelCloud_rotate_to_pose ::
  "('m, 'z) RealVoxelCloud_scheme \<Rightarrow> pose \<Rightarrow> ('m, 'z) RealVoxelCloud_scheme" where
  "RealVoxelCloud_rotate_to_pose self p =
     self\<lparr>coordinate_list :=
       (coordinate_list self)\<lparr>array := rotate_coordinates p (get (coordinate_list self)) False\<rparr>\<rparr>"


section \<open>Helpers of the array library used by the constructors\<close>

text \<open>Python's \<open>int(x)\<close> on a float truncates towards zero.\<close>

definition py_int :: "real \<Rightarrow> int" where
  "py_int x = (if 0 \<le> x then \<lfloor>x\<rfloor> else \<lceil>x\<rceil>)"

fun position :: "'a \<Rightarrow> 'a list \<Rightarrow> nat" where
  "position k [] = 0"
| "position k (x # xs) = (if x = k then 0 else Suc (position k xs))"

text \<open>
  \<open>jnp.transpose(a, axes)\<close>: axis \<open>i\<close> of the result is axis \<open>axes[i]\<close> of \<open>a\<close>; the
  library rejects an \<open>axes\<close> that is not a permutation of the axes of \<open>a\<close>.
\<close>

definition transpose_nd :: "'a ndarray \<Rightarrow> nat list \<Rightarrow> error + 'a ndarray" where
  "transpose_nd a axes =
     (if sort axes \<noteq> [0..<ndim a] then Inl ArrayLibraryError
      else Inr \<lparr>shape = map (\<lambda>k. shape a ! k) axes,
                item = (\<lambda>idx. item a (map (\<lambda>k. idx ! position k axes) [0..<length axes]))\<rparr>)"

text \<open>\<open>jnp.fft.fftshift\<close>: every axis of extent \<open>n\<close> is rolled by \<open>n // 2\<close>.\<close>

definition fftshift :: "'a ndarray \<Rightarrow> 'a ndarray" where
  "fftshift a =
     \<lparr>shape = shape a,
      item = (\<lambda>idx. item a (map2 (\<lambda>j n. (j + n - n div 2) mod n) idx (shape a)))\<rparr>"

text \<open>
  \<open>jnp.isclose(a, b, rtol, atol)\<close> on finite values.
\<close>

definition isclose :: "real \<Rightarrow> real \<Rightarrow> real \<Rightarrow> real \<Rightarrow> bool" where
  "isclose a b rtol atol \<longleftrightarrow> \<bar>a - b\<bar> \<le> atol + rtol * \<bar>b\<bar>"

text \<open>All multi-indices of a shape in row-major order, the order of \<open>jnp.where\<close>.\<close>

definition indices_of :: "nat list \<Rightarrow> nat list list" where
  "indices_of shp = List.product_lists (map (\<lambda>n. [0..<n]) shp)"

text \<open>
  \<open>jnp.where(cond)\<close> with a single argument: the multi-indices at which the condition
  holds, in row-major order (the library returns them as one index array per axis).
\<close>

definition where_nd :: "nat list \<Rightarrow> (nat list \<Rightarrow> bool) \<Rightarrow> nat list list" where
  "where_nd shp cond = filter cond (indices_of shp)"

text \<open>
  \<open>a[nonzero]\<close> for the index arrays of \<open>where_nd\<close> over the leading \<open>k\<close> axes of \<open>a\<close>:
  entry \<open>n\<close> of the result is the sub-array of \<open>a\<close> at the \<open>n\<close>-th multi-index.
\<close>

definition take_indices :: "'a ndarray \<Rightarrow> nat \<Rightarrow> nat list list \<Rightarrow> 'a ndarray" where
  "take_indices a k idxs =
     \<lparr>shape = length idxs # drop k (shape a),
      item = (\<lambda>idx. item a ((idxs ! hd idx) @ tl idx))\<rparr>"


section \<open>Constructors from a real voxel grid\<close>

definition FourierVoxelGrid_init ::
  "complex ndarray \<Rightarrow> 'm coordinates_scheme \<Rightarrow> real \<Rightarrow> error + 'm FourierVoxelGrid" where
  "FourierVoxelGrid_init fvg fs vs =
     Inr \<lparr>voxel_size = vs, frequency_slice = fs, fourier_voxel_grid = fvg\<rparr>"

definition RealVoxelGrid_init ::
  "real ndarray \<Rightarrow> 'm coordinates_scheme \<Rightarrow> real \<Rightarrow> 'm RealVoxelGrid" where
  "RealVoxelGrid_init rvg cg vs =
     \<lparr>voxel_size = vs, real_voxel_grid = rvg, coordinate_grid = cg\<rparr>"

definition RealVoxelCloud_init ::
  "real ndarray \<Rightarrow> 'm coordinates_scheme \<Rightarrow> real \<Rightarrow> 'm RealVoxelCloud" where
  "RealVoxelCloud_init w cl vs =
     \<lparr>voxel_size = vs, voxel_weights = w, coordinate_list = cl\<rparr>"

text \<open>The shape that \<open>AbstractFourierVoxelGrid.from_real_voxel_grid\<close> pads to.\<close>

definition padded_shape :: "nat list \<Rightarrow> real \<Rightarrow> int list" where
  "padded_shape shp pad_scale = map (\<lambda>s. py_int (real s * pad_scale)) shp"

text \<open>
  \<open>AbstractFourierVoxelGrid.from_real_voxel_grid\<close>. The class \<open>cls\<close> being constructed is
  its constructor. The helpers \<open>pad_to_shape\<close> and \<open>fftn\<close> of \<open>cryojax.image\<close> and the
  constructor \<open>FrequencySlice\<close> of \<open>cryojax.coordinates\<close> are not part of the sources at
  hand: they are parameters, taken to return normally. \<open>pad_to_shape\<close> is only known to
  be called with \<open>padded_shape\<close>.
\<close>

definition AbstractFourierVoxelGrid_from_real_voxel_grid ::
  "(complex ndarray \<Rightarrow> 'm coordinates_scheme \<Rightarrow> real \<Rightarrow> error + 'obj) \<Rightarrow>
   (real ndarray \<Rightarrow> int list \<Rightarrow> string \<Rightarrow> real ndarray) \<Rightarrow>
   (real ndarray \<Rightarrow> complex ndarray) \<Rightarrow>
   (nat list \<Rightarrow> bool \<Rightarrow> 'm coordinates_scheme) \<Rightarrow>
   real ndarray \<Rightarrow> real \<Rightarrow> real \<Rightarrow> string \<Rightarrow> (complex ndarray \<Rightarrow> complex ndarray) option \<Rightarrow>
   error + 'obj" where
  "AbstractFourierVoxelGrid_from_real_voxel_grid cls pad_to_shape fftn FrequencySlice
       real_grid vs pad_scale pad_mode filter_opt =
     (if pad_scale < 1 then Inl (ValueError ''pad_scale must be greater than 1.0'')
      else
        let padded_real_voxel_grid =
              pad_to_shape real_grid (padded_shape (shape real_grid) pad_scale) pad_mode;
            fourier_voxel_grid_with_zero_in_corner =
              (case filter_opt of
                 None \<Rightarrow> fftn padded_real_voxel_grid
               | Some f \<Rightarrow> f (fftn padded_real_voxel_grid));
            fourier_grid = fftshift fourier_voxel_grid_with_zero_in_corner;
            freq_slice = FrequencySlice (butlast (shape padded_real_voxel_grid)) False
        in cls fourier_grid freq_slice vs)"

text \<open>
  \<open>RealVoxelGrid.from_real_voxel_grid\<close>; \<open>crop_to_shape\<close> and the constructor
  \<open>CoordinateGrid\<close> are parameters, as above.
\<close>

definition last3 :: "'a list \<Rightarrow> 'a list" where
  "last3 xs = drop (length xs - 3) xs"

definition RealVoxelGrid_from_real_voxel_grid ::
  "(real ndarray \<Rightarrow> int list \<Rightarrow> real ndarray) \<Rightarrow>
   (nat list \<Rightarrow> 'm coordinates_scheme) \<Rightarrow>
   real ndarray \<Rightarrow> real \<Rightarrow> 'm coordinates_scheme option \<Rightarrow> real option \<Rightarrow>
   error + 'm RealVoxelGrid" where
  "RealVoxelGrid_from_real_voxel_grid crop_to_shape CoordinateGrid
       real_grid vs coordinate_grid_opt crop_scale =
     (case transpose_nd real_grid [1, 0, 2] of
        Inl e \<Rightarrow> Inl e
      | Inr g \<Rightarrow>
         (case coordinate_grid_opt of
            Some cg \<Rightarrow> Inr (RealVoxelGrid_init g cg vs)
          | None \<Rightarrow>
             (case crop_scale of
                None \<Rightarrow> Inr (RealVoxelGrid_init g (CoordinateGrid (last3 (shape g))) vs)
              | Some cs \<Rightarrow>
                 if cs > 1 then Inl (ValueError ''crop_scale must be less than 1.0'')
                 else
                   let cropped_shape = map (\<lambda>s. py_int (real s * cs)) (last3 (shape g));
                       g' = crop_to_shape g cropped_shape
                   in Inr (RealVoxelGrid_init g' (CoordinateGrid (last3 (shape g'))) vs))))"

text \<open>
  \<open>RealVoxelCloud.from_real_voxel_grid\<close>; the constructors \<open>CoordinateGrid\<close> and
  \<open>CoordinateList\<close> are parameters.
\<close>

definition RealVoxelCloud_from_real_voxel_grid ::
  "(nat list \<Rightarrow> 'g coordinates_scheme) \<Rightarrow>
   (real ndarray \<Rightarrow> 'm coordinates_scheme) \<Rightarrow>
   real ndarray \<Rightarrow> real \<Rightarrow> 'g coordinates_scheme option \<Rightarrow> real \<Rightarrow> real \<Rightarrow>
   error + 'm RealVoxelCloud" where
  "RealVoxelCloud_from_real_voxel_grid CoordinateGrid CoordinateList
       real_grid vs coordinate_grid_opt rtol atol =
     (case transpose_nd real_grid [1, 0, 2] of
        Inl e \<Rightarrow> Inl e
      | Inr g \<Rightarrow>
          let cg = (case coordinate_grid_opt of
                      None \<Rightarrow> CoordinateGrid (shape g)
                    | Some c \<Rightarrow> c);
              nonzero = where_nd (shape g) (\<lambda>idx. \<not> isclose (item g idx) 0 rtol atol);
              flat_potential = take_indices g (ndim g) nonzero;
              coord_list = CoordinateList (take_indices (get cg) (ndim g) nonzero)
          in Inr (RealVoxelCloud_init flat_potential coord_list vs))"

text \<open>The default tolerances of \<open>RealVoxelCloud.from_real_voxel_grid\<close>.\<close>

definition default_rtol :: real where
  "default_rtol = 1 / 10 ^ 5"

definition default_atol :: real where
  "default_atol = 1 / 10 ^ 8"


section \<open>Atom rasterization\<close>

text \<open>\<open>a[i]\<close>: the sub-array at position \<open>i\<close> of the leading axis.\<close>

definition row :: "'a ndarray \<Rightarrow> nat \<Rightarrow> 'a ndarray" where
  "row a i = \<lparr>shape = tl (shape a), item = (\<lambda>idx. item a (i # idx))\<rparr>"

definition zeros :: "nat list \<Rightarrow> real ndarray" where
  "zeros shp = \<lparr>shape = shp, item = (\<lambda>idx. 0)\<rparr>"

definition add_nd :: "real ndarray \<Rightarrow> real ndarray \<Rightarrow> real ndarray" where
  "add_nd a b = \<lparr>shape = shape a, item = (\<lambda>idx. item a idx + item b idx)\<rparr>"

text \<open>
  \<open>evaluate_3d_real_space_gaussian\<close>: the grid has a trailing axis holding the
  components of each point, over which \<open>jnp.sum(..., axis=-1)\<close> runs.
\<close>

definition evaluate_3d_real_space_gaussian ::
  "real ndarray \<Rightarrow> real ndarray \<Rightarrow> real \<Rightarrow> real \<Rightarrow> real ndarray" where
  "evaluate_3d_real_space_gaussian coordinate_grid_in_angstroms atom_position a b =
     (let b_inverse = 4 * pi / b;
          sq_distances = (\<lambda>idx.
             sum_list (map (\<lambda>c. b_inverse *
                  (item coordinate_grid_in_angstroms (idx @ [c]) - item atom_position [c]) ^ 2)
                [0..<last (shape coordinate_grid_in_angstroms)]))
      in \<lparr>shape = butlast (shape coordinate_grid_in_angstroms),
          item = (\<lambda>idx. exp (- pi * sq_distances idx) * a * b_inverse powr (3 / 2))\<rparr>)"

text \<open>
  \<open>evaluate_3d_atom_potential\<close>: \<open>jax.vmap\<close> over the leading axis of \<open>atomic_as\<close> and
  \<open>atomic_bs\<close> (of extent 5 by their type), then the sum over that axis.
\<close>

definition evaluate_3d_atom_potential ::
  "real ndarray \<Rightarrow> real ndarray \<Rightarrow> real ndarray \<Rightarrow> real ndarray \<Rightarrow> real ndarray" where
  "evaluate_3d_atom_potential coordinate_grid_in_angstroms atom_position atomic_as atomic_bs =
     \<lparr>shape = butlast (shape coordinate_grid_in_angstroms),
      item = (\<lambda>idx. sum_list (map (\<lambda>m.
                 item (evaluate_3d_real_space_gaussian coordinate_grid_in_angstroms atom_position
                         (item atomic_as [m]) (item atomic_bs [m])) idx)
               [0..<hd (shape atomic_as)]))\<rparr>"

text \<open>
  \<open>build_real_space_voxels_from_atoms\<close>: \<open>jax.lax.fori_loop(0, N, body, buffer)\<close> applies
  the body for \<open>i = 0, ..., N - 1\<close> in turn. The loop traces its body once even when
  there is no iteration, and the library refuses the index \<open>[i]\<close> into a leading axis of
  extent 0 with an \<open>IndexError\<close>: without atoms the function raises.
\<close>

definition add_gaussian_to_potential ::
  "real ndarray \<Rightarrow> real ndarray \<Rightarrow> real ndarray \<Rightarrow> real ndarray \<Rightarrow> nat \<Rightarrow> real ndarray \<Rightarrow> real ndarray" where
  "add_gaussian_to_potential atom_positions ff_a ff_b coordinate_grid_in_angstroms i potential =
     add_nd potential
       (evaluate_3d_atom_potential coordinate_grid_in_angstroms
          (row atom_positions i) (row ff_a i) (row ff_b i))"

definition build_real_space_voxels_from_atoms ::
  "real ndarray \<Rightarrow> real ndarray \<Rightarrow> real ndarray \<Rightarrow> real ndarray \<Rightarrow> error + real ndarray" where
  "build_real_space_voxels_from_atoms atom_positions ff_a ff_b coordinate_grid_in_angstroms =
     (if hd (shape atom_positions) = 0 \<or> hd (shape ff_a) = 0 \<or> hd (shape ff_b) = 0
      then Inl IndexError
      else
        let voxel_grid_buffer = zeros (butlast (shape coordinate_grid_in_angstroms))
        in Inr (fold (add_gaussian_to_potential atom_positions ff_a ff_b coordinate_grid_in_angstroms)
             [0..<hd (shape atom_positions)] voxel_grid_buffer))"


section \<open>Cubic spline coefficients\<close>

text \<open>\<open>jnp.full((n,), v)\<close>: the library refuses a negative extent.\<close>

definition full :: "int \<Rightarrow> 'a \<Rightarrow> error + 'a list" where
  "full n v = (if n < 0 then Inl ArrayLibraryError else Inr (replicate (nat n) v))"

record 'a TridiagonalLinearOperator =
  diagonal :: "'a list"
  lower_diagonal :: "'a list"
  upper_diagonal :: "'a list"

definition build_operator :: "int \<Rightarrow> 'a \<Rightarrow> error + ('a::field) TridiagonalLinearOperator" where
  "build_operator n diag_value =
     (case full n diag_value of
        Inl e \<Rightarrow> Inl e
      | Inr d \<Rightarrow>
         (case full (n - 1) 1 of
            Inl e \<Rightarrow> Inl e
          | Inr l \<Rightarrow>
             (case full (n - 1) 1 of
                Inl e \<Rightarrow> Inl e
              | Inr u \<Rightarrow> Inr \<lparr>diagonal = d, lower_diagonal = l, upper_diagonal = u\<rparr>)))"

text \<open>
  \<open>lx.linear_solve\<close> on a tridiagonal operator (library \<open>lineax\<close>): the Thomas algorithm,
  a forward sweep over the rows (sub-diagonal, diagonal, super-diagonal, right-hand side)
  followed by back substitution.
\<close>

fun thomas_forward :: "'a::field \<Rightarrow> 'a \<Rightarrow> ('a \<times> 'a \<times> 'a \<times> 'a) list \<Rightarrow> ('a \<times> 'a) list" where
  "thomas_forward cp dp [] = []"
| "thomas_forward cp dp ((a, b, c, d) # rows) =
     (let denom = b - a * cp;
          c' = c / denom;
          d' = (d - a * dp) / denom
      in (c', d') # thomas_forward c' d' rows)"

fun thomas_backsub :: "('a::field \<times> 'a) list \<Rightarrow> 'a list" where
  "thomas_backsub [] = []"
| "thomas_backsub ((c', d') # rest) =
     (let xs = thomas_backsub rest
      in (d' - c' * (case xs of [] \<Rightarrow> 0 | x # _ \<Rightarrow> x)) # xs)"

definition linear_solve :: "('a::field) TridiagonalLinearOperator \<Rightarrow> 'a list \<Rightarrow> 'a list" where
  "linear_solve operator vector =
     thomas_backsub (thomas_forward 0 0
       (zip (0 # lower_diagonal operator)
         (zip (diagonal operator)
           (zip (upper_diagonal operator @ [0]) vector))))"

text \<open>
  \<open>_construct_vector\<close>: \<open>data[1:-1]\<close> with its first and then its last entry replaced.
\<close>

definition construct_vector :: "('a::field) list \<Rightarrow> 'a \<Rightarrow> 'a \<Rightarrow> 'a list" where
  "construct_vector data c2 cnp2 =
     (let yvec = butlast (tl data);
          first = data ! 1 - c2;
          last_entry = data ! (length data - 2) - cnp2;
          yvec = yvec[0 := first];
          yvec = yvec[length yvec - 1 := last_entry]
      in yvec)"

definition solve_coefficients :: "('a::field) list \<Rightarrow> 'a TridiagonalLinearOperator \<Rightarrow> 'a list" where
  "solve_coefficients data operator =
     (let c2 = 1 / 6 * data ! 0;
          cnp2 = 1 / 6 * data ! (length data - 1);
          yvec = construct_vector data c2 cnp2;
          cs = linear_solve operator yvec;
          c1 = 2 * c2 - cs ! 0;
          cnp3 = 2 * cnp2 - cs ! (length cs - 1)
      in [c1, c2] @ cs @ [cnp2, cnp3])"

text \<open>
  The nest of \<open>vmap\<close>s in \<open>_spline_coefficients\<close> applies the one-dimensional function
  along \<open>axis\<close> for every position of the other axes: the line through a multi-index
  along that axis is read, transformed, and the entry at the index taken.
\<close>

definition line_through :: "'a ndarray \<Rightarrow> nat \<Rightarrow> nat list \<Rightarrow> 'a list" where
  "line_through a axis idx = map (\<lambda>j. item a (idx[axis := j])) [0..<shape a ! axis]"

definition along_axis :: "nat \<Rightarrow> ('a list \<Rightarrow> 'a list) \<Rightarrow> 'a ndarray \<Rightarrow> 'a ndarray" where
  "along_axis axis fn a =
     \<lparr>shape = (shape a)[axis := length (fn (line_through a axis (replicate (ndim a) 0)))],
      item = (\<lambda>idx. fn (line_through a axis idx) ! (idx ! axis))\<rparr>"

fun spline_axes :: "nat list \<Rightarrow> ('a::field) ndarray \<Rightarrow> error + 'a ndarray" where
  "spline_axes [] data = Inr data"
| "spline_axes (axis # rest) data =
     (case build_operator (int (shape data ! axis) - 2) 4 of
        Inl e \<Rightarrow> Inl e
      | Inr A \<Rightarrow> spline_axes rest (along_axis axis (\<lambda>x. solve_coefficients x A) data))"

definition spline_coefficients :: "('a::field) ndarray \<Rightarrow> error + 'a ndarray" where
  "spline_coefficients data = spline_axes (rev [0..<ndim data]) data"

text \<open>
  Modelled from the spec: \<open>compute_spline_coefficients\<close> of \<open>cryojax.image\<close>, which is not
  among the sources; it computes the cubic-spline coefficients of a grid, increasing
  each axis extent by 2, as \<open>_spline_coefficients\<close> does.
\<close>

definition compute_spline_coefficients :: "complex ndarray \<Rightarrow> error + complex ndarray" where
  "compute_spline_coefficients data = spline_coefficients data"

definition FourierVoxelGridInterpolator_init ::
  "complex ndarray \<Rightarrow> 'm coordinates_scheme \<Rightarrow> real \<Rightarrow> error + 'm FourierVoxelGridInterpolator" where
  "FourierVoxelGridInterpolator_init fvg fs vs =
     (case compute_spline_coefficients fvg of
        Inl e \<Rightarrow> Inl e
      | Inr c \<Rightarrow> Inr \<lparr>voxel_size = vs, frequency_slice = fs, coefficients = c\<rparr>)"

text \<open>The \<open>shape\<close> properties.\<close>

definition FourierVoxelGrid_shape :: "'m FourierVoxelGrid \<Rightarrow> int list" where
  "FourierVoxelGrid_shape self = map int (shape (fourier_voxel_grid self))"



section \<open>The coordinate interpolator \<open>map_coordinates\<close>\<close>

text \<open>
  The gather \<open>a.at[index].get(mode=mode, fill_value=cval)\<close> of the array library. The
  mode is a string that the source hands on unchecked; the library knows \<open>"clip"\<close>,
  \<open>"fill"\<close> with its synonym \<open>"drop"\<close>, and \<open>"promise_in_bounds"\<close>, and raises a
  \<open>ValueError\<close> for every other string. The parse does not depend on the index, so it
  is written once, where a function first gathers. Versions of the library differ on
  the string \<open>"one_hot"\<close>, about which nothing is stated below.
\<close>

datatype gather_mode = Fill | Clip | PromiseInBounds

definition unknown_gather_mode_message :: "string \<Rightarrow> string" where
  "unknown_gather_mode_message s = ''Unknown gather mode '' @ [CHR 0x22] @ s @ [CHR 0x22]"

definition parse_gather_mode :: "string \<Rightarrow> error + gather_mode" where
  "parse_gather_mode s =
     (if s = ''clip'' then Inr Clip
      else if s = ''fill'' \<or> s = ''drop'' then Inr Fill
      else if s = ''promise_in_bounds'' then Inr PromiseInBounds
      else Inl (ValueError (unknown_gather_mode_message s)))"

text \<open>
  A negative index counts from the end of its axis; an index that is then still out of
  range yields the fill value under \<open>fill\<close> and is clamped to the axis under \<open>clip\<close>.
  Under \<open>promise_in_bounds\<close> the library checks nothing and its backend clamps.
\<close>

definition normalize_index :: "int \<Rightarrow> nat \<Rightarrow> int" where
  "normalize_index i n = (if i < 0 then i + int n else i)"

definition gather :: "'a ndarray \<Rightarrow> gather_mode \<Rightarrow> 'a \<Rightarrow> int list \<Rightarrow> 'a" where
  "gather a mode cval index =
     (let js = map2 normalize_index index (shape a)
      in case mode of
           Fill \<Rightarrow>
             if list_all (\<lambda>(j, n). 0 \<le> j \<and> j < int n) (zip js (shape a))
             then item a (map nat js) else cval
         | Clip \<Rightarrow>
             item a (map2 (\<lambda>j n. nat (max 0 (min (int n - 1) j))) js (shape a))
         | PromiseInBounds \<Rightarrow>
             item a (map2 (\<lambda>j n. nat (max 0 (min (int n - 1) j))) js (shape a)))"

text \<open>\<open>lax.round\<close>: to the nearest integer, a tie going away from zero.\<close>

definition round_half_away_from_zero :: "real \<Rightarrow> int" where
  "round_half_away_from_zero a = (if 0 \<le> a then \<lfloor>a + 1 / 2\<rfloor> else \<lceil>a - 1 / 2\<rceil>)"

definition nearest_indices_and_weights :: "real \<Rightarrow> (int \<times> real) list" where
  "nearest_indices_and_weights coordinate =
     (let index = round_half_away_from_zero coordinate;
          weight = 1
      in [(index, weight)])"

definition linear_indices_and_weights :: "real \<Rightarrow> (int \<times> real) list" where
  "linear_indices_and_weights coordinate =
     (let lower = \<lfloor>coordinate\<rfloor>;
          upper_weight = coordinate - of_int lower;
          lower_weight = 1 - upper_weight;
          index = lower
      in [(index, lower_weight), (index + 1, upper_weight)])"

text \<open>\<open>functools.reduce\<close> without an initial value, on a sequence known to be non-empty.\<close>

definition nonempty_prod :: "real list \<Rightarrow> real" where
  "nonempty_prod arrs = foldl (*) (hd arrs) (tl arrs)"

definition nonempty_sum :: "real list \<Rightarrow> real" where
  "nonempty_sum arrs = foldl (+) (hd arrs) (tl arrs)"

definition spline_basis :: "real \<Rightarrow> real" where
  "spline_basis t =
     (let abs_t = \<bar>t\<bar>
      in if abs_t \<ge> 1 then (if abs_t \<le> 2 then (2 - abs_t) ^ 3 else 0)
         else (if abs_t \<le> 1 then 4 - 6 * abs_t ^ 2 + 3 * abs_t ^ 3 else 0))"

definition spline_value ::
  "real ndarray \<Rightarrow> real list \<Rightarrow> int list \<Rightarrow> gather_mode \<Rightarrow> real \<Rightarrow> real" where
  "spline_value coeffs coordinate index mode cval =
     (let coefficient = gather coeffs mode cval index
      in coefficient * prod_list (map2 (\<lambda>x i. spline_basis (x - of_int i + 1)) coordinate index))"

text \<open>
  \<open>_spline_point\<close>: \<open>jnp.meshgrid(..., indexing="ij")\<close>, reshaped and transposed, lists
  the index tuples of the \<open>4 ^ ndim\<close> neighbours with the first axis varying slowest.
\<close>

definition spline_point :: "real ndarray \<Rightarrow> real list \<Rightarrow> gather_mode \<Rightarrow> real \<Rightarrow> real" where
  "spline_point coeffs coordinate mode cval =
     (let index_vals = map (\<lambda>x. map (\<lambda>k. k + \<lfloor>x\<rfloor>) [0, 1, 2, 3]) coordinate;
          indices = List.product_lists index_vals
      in sum_list (map (\<lambda>index. spline_value coeffs coordinate index mode cval) indices))"

text \<open>
  The coordinate arrays handed to \<open>map_coordinates\<close>: one array per axis of the input,
  all of one shape (as the contract of the function has it), so the sequence is the
  list of their element functions together with the common shape. Every array
  operation in the body acts elementwise over the points of that shape, so the result
  is given point by point. The input has a floating dtype: the final rounding, taken
  for an integer dtype only, is not.
\<close>

record coordinate_arrays =
  coords_shape :: "nat list"
  coords :: "(nat list \<Rightarrow> real) list"

definition cubic_spline ::
  "real ndarray \<Rightarrow> coordinate_arrays \<Rightarrow> string \<Rightarrow> real \<Rightarrow> error + real ndarray" where
  "cubic_spline input coordinates mode cval =
     (case spline_coefficients input of
        Inl e \<Rightarrow> Inl e
      | Inr coeffs \<Rightarrow>
         (case parse_gather_mode mode of
            Inl e \<Rightarrow> Inl e
          | Inr m \<Rightarrow>
              Inr \<lparr>shape = coords_shape coordinates,
                   item = (\<lambda>p. spline_point coeffs (map (\<lambda>c. c p) (coords coordinates)) m cval)\<rparr>))"

definition interpolate_point ::
  "(real \<Rightarrow> (int \<times> real) list) \<Rightarrow> real ndarray \<Rightarrow> real list \<Rightarrow> gather_mode \<Rightarrow> real \<Rightarrow> real" where
  "interpolate_point interp_fun input_arr coordinate mode cval =
     (let interpolations_1d = map interp_fun coordinate;
          outputs = map (\<lambda>items.
                      let index_like = map fst items;
                          weights = map snd items;
                          contribution = gather input_arr mode cval index_like
                      in nonempty_prod weights * contribution)
                    (List.product_lists interpolations_1d)
      in nonempty_sum outputs)"

text \<open>The message of the length check of \<open>_map_coordinates\<close>.\<close>

definition length_mismatch_message :: "nat \<Rightarrow> nat \<Rightarrow> string" where
  "length_mismatch_message n d =
     ''coordinates must be a sequence of length input.ndim, but '' @ string_of_nat n
       @ '' != '' @ string_of_nat d"

text \<open>
  \<open>_map_coordinates\<close>. With no axis at all the tuple of weights is empty and
  \<open>_nonempty_prod\<close> raises (orders 0 and 1), and the reshape of the empty coordinate
  array is refused by the library (order 3). For orders 0 and 1 the gather comes
  first: it refuses scalar coordinates into an axis of extent 0 with an \<open>IndexError\<close>,
  then parses the mode. For order 3 the coefficients are computed before the first
  gather.
\<close>

definition map_coordinates ::
  "real ndarray \<Rightarrow> coordinate_arrays \<Rightarrow> int \<Rightarrow> string \<Rightarrow> real \<Rightarrow> error + real ndarray" where
  "map_coordinates input coordinates order mode cval =
     (if length (coords coordinates) \<noteq> ndim input
      then Inl (ValueError (length_mismatch_message (length (coords coordinates)) (ndim input)))
      else if order \<noteq> 0 \<and> order \<noteq> 1 \<and> order \<noteq> 3
      then Inl (NotImplementedError ''map_coordinates requires order = 0, 1, or 3.'')
      else if order = 0 \<or> order = 1 then
        (if ndim input = 0
         then Inl (TypeError ''reduce() of empty iterable with no initial value'')
         else if coords_shape coordinates = [] \<and> 0 \<in> set (shape input)
         then Inl IndexError
         else
           (case parse_gather_mode mode of
              Inl e \<Rightarrow> Inl e
            | Inr m \<Rightarrow>
                Inr \<lparr>shape = coords_shape coordinates,
                     item = (\<lambda>p. interpolate_point
                        (if order = 0 then nearest_indices_and_weights
                         else linear_indices_and_weights)
                        input (map (\<lambda>c. c p) (coords coordinates)) m cval)\<rparr>))
      else
        (if ndim input = 0 then Inl ArrayLibraryError
         else cubic_spline input coordinates mode cval))"


section \<open>Auxiliary notions and sample data for the statements below\<close>

text \<open>The array with its first two axes exchanged, written out for three axes.\<close>

definition swap01 :: "'a ndarray \<Rightarrow> 'a ndarray" where
  "swap01 a = \<lparr>shape = [shape a ! 1, shape a ! 0, shape a ! 2],
               item = (\<lambda>idx. item a [idx ! 1, idx ! 0, idx ! 2])\<rparr>"

definition example_grid :: "real ndarray" where
  "example_grid = \<lparr>shape = [1, 2, 3], item = (\<lambda>idx. 1)\<rparr>"

definition example_coordinates :: coordinates where
  "example_coordinates = \<lparr>array = \<lparr>shape = [1, 2, 3, 3], item = (\<lambda>idx. 0)\<rparr>\<rparr>"

definition example_CoordinateGrid :: "nat list \<Rightarrow> coordinates" where
  "example_CoordinateGrid shp = \<lparr>array = \<lparr>shape = shp @ [3], item = (\<lambda>idx. real (last idx))\<rparr>\<rparr>"

definition example_CoordinateList :: "real ndarray \<Rightarrow> coordinates" where
  "example_CoordinateList a = \<lparr>array = a\<rparr>"

definition example_crop_to_shape :: "real ndarray \<Rightarrow> int list \<Rightarrow> real ndarray" where
  "example_crop_to_shape a shp = a\<lparr>shape := map nat shp\<rparr>"


text \<open>A grid whose single voxel is non-zero but within the default absolute tolerance.\<close>

definition tiny_grid :: "real ndarray" where
  "tiny_grid = \<lparr>shape = [1, 1, 1], item = (\<lambda>idx. 1 / 10 ^ 9)\<rparr>"

text \<open>
  The multi-indices kept by the masking step of \<open>RealVoxelCloud.from_real_voxel_grid\<close>
  on the (already transposed) grid \<open>g\<close>.
\<close>

definition retained :: "real ndarray \<Rightarrow> real \<Rightarrow> real \<Rightarrow> nat list list" where
  "retained g rtol atol = where_nd (shape g) (\<lambda>idx. \<not> isclose (item g idx) 0 rtol atol)"

text \<open>The operator that \<open>_build_operator\<close> returns for an axis of extent \<open>n\<close>.\<close>

definition spline_operator :: "nat \<Rightarrow> ('a::field) TridiagonalLinearOperator" where
  "spline_operator n =
     \<lparr>diagonal = replicate (n - 2) 4, lower_diagonal = replicate (n - 3) 1,
      upper_diagonal = replicate (n - 3) 1\<rparr>"


definition example_line :: "real ndarray" where
  "example_line = \<lparr>shape = [3], item = (\<lambda>idx. [6, 0, 0] ! hd idx)\<rparr>"

definition example_nodes :: coordinate_arrays where
  "example_nodes = \<lparr>coords_shape = [3], coords = [\<lambda>p. real (hd p)]\<rparr>"

definition no_coordinates :: coordinate_arrays where
  "no_coordinates = \<lparr>coords_shape = [3], coords = []\<rparr>"

definition example_samples :: "real ndarray" where
  "example_samples = \<lparr>shape = [4], item = (\<lambda>idx. [6, 0, 0, 0] ! hd idx)\<rparr>"

definition no_atoms :: "real ndarray" where
  "no_atoms = \<lparr>shape = [0, 3], item = (\<lambda>idx. 0)\<rparr>"

definition no_form_factors :: "real ndarray" where
  "no_form_factors = \<lparr>shape = [0, 5], item = (\<lambda>idx. 0)\<rparr>"


text \<open>
  Sample instances of the external helpers \<open>pad_to_shape\<close>, \<open>fftn\<close> and
  \<open>FrequencySlice\<close>, used only to instantiate statements at concrete inputs.
\<close>

definition example_pad_to_shape :: "real ndarray \<Rightarrow> int list \<Rightarrow> string \<Rightarrow> real ndarray" where
  "example_pad_to_shape a shp pad_mode = a\<lparr>shape := map nat shp\<rparr>"

definition example_fftn :: "real ndarray \<Rightarrow> complex ndarray" where
  "example_fftn a = \<lparr>shape = shape a, item = (\<lambda>idx. complex_of_real (item a idx))\<rparr>"

definition example_FrequencySlice :: "nat list \<Rightarrow> bool \<Rightarrow> coordinates" where
  "example_FrequencySlice shp half_space = \<lparr>array = \<lparr>shape = shp @ [1, 3], item = (\<lambda>idx. 0)\<rparr>\<rparr>"

definition one_voxel_grid :: "real ndarray" where
  "one_voxel_grid = \<lparr>shape = [1, 2, 1], item = (\<lambda>idx. if idx = [0, 1, 0] then 5 else 0)\<rparr>"


definition example_atom_positions :: "real ndarray" where
  "example_atom_positions = \<lparr>shape = [1, 3], item = (\<lambda>idx. 0)\<rparr>"

definition example_form_factors :: "real ndarray" where
  "example_form_factors = \<lparr>shape = [1, 5], item = (\<lambda>idx. 1)\<rparr>"

definition example_points :: "real ndarray" where
  "example_points = \<lparr>shape = [1, 1, 1, 3], item = (\<lambda>idx. 0)\<rparr>"

text \<open>
  Notions for the correctness of the tridiagonal solve: the first entry of a list, or 0;
  the rows (sub-diagonal, diagonal, super-diagonal, right-hand side) of the system
  \<open>linear_solve\<close> is given for a right-hand side \<open>y\<close> of \<open>m\<close> entries; and what it means
  for \<open>xs\<close> to solve a list of such rows, \<open>xp\<close> being the unknown before the first.
\<close>

definition hd0 :: "real list \<Rightarrow> real" where
  "hd0 xs = (case xs of [] \<Rightarrow> 0 | x # _ \<Rightarrow> x)"

fun tridiagonal_solution :: "real \<Rightarrow> (real \<times> real \<times> real \<times> real) list \<Rightarrow> real list \<Rightarrow> bool" where
  "tridiagonal_solution xp [] xs = (xs = [])"
| "tridiagonal_solution xp ((a, b, c, d) # rows) [] = False"
| "tridiagonal_solution xp ((a, b, c, d) # rows) (x # xs) =
     (a * xp + b * x + c * hd0 xs = d \<and> tridiagonal_solution x rows xs)"

definition spline_rows :: "nat \<Rightarrow> real list \<Rightarrow> (real \<times> real \<times> real \<times> real) list" where
  "spline_rows m y = zip (0 # replicate (m - 1) 1) (zip (replicate m 4) (zip (replicate (m - 1) 1 @ [0]) y))"

text \<open>
  A weighted sum nested over the axes: for each axis a list of (index, weight) pairs;
  the function \<open>G\<close> of the chosen indices is summed with the product of the weights.
\<close>

primrec weighted_nest :: "('i \<times> real) list list \<Rightarrow> ('i list \<Rightarrow> real) \<Rightarrow> real" where
  "weighted_nest [] = (\<lambda>G. G [])"
| "weighted_nest (ns # nss) =
     (\<lambda>G. sum_list (map (\<lambda>(i, w). w * weighted_nest nss (\<lambda>rest. G (i # rest))) ns))"

text \<open>The nodes and weights of the cubic spline at the integer position \<open>i\<close> of an axis.\<close>

definition spline_nodes :: "nat \<Rightarrow> (nat \<times> real) list" where
  "spline_nodes i = [(i, 1), (Suc i, 4), (Suc (Suc i), 1)]"

text \<open>The spline coefficients of \<open>example_line\<close>, the samples \<open>[6, 0, 0]\<close>.\<close>

definition example_line_coefficients_array :: "real ndarray" where
  "example_line_coefficients_array =
     along_axis 0 (\<lambda>x. solve_coefficients x (spline_operator 3)) example_line"

section \<open>Pose rotation\<close>

lemma fourier_rotate:
  "AbstractFourierVoxelGrid_rotate_to_pose f p =
     f\<lparr>frequency_slice := (frequency_slice f)\<lparr>array := rotate_coordinates p (array (frequency_slice f)) True\<rparr>\<rparr>"
  by (simp add: AbstractFourierVoxelGrid_rotate_to_pose_def get_def)

lemma real_grid_rotate:
  "RealVoxelGrid_rotate_to_pose g p =
     g\<lparr>coordinate_grid := (coordinate_grid g)\<lparr>array := rotate_coordinates p (array (coordinate_grid g)) False\<rparr>\<rparr>"
  by (simp add: RealVoxelGrid_rotate_to_pose_def get_def)

lemma real_cloud_rotate:
  "RealVoxelCloud_rotate_to_pose c p =
     c\<lparr>coordinate_list := (coordinate_list c)\<lparr>array := rotate_coordinates p (array (coordinate_list c)) False\<rparr>\<rparr>"
  by (simp add: RealVoxelCloud_rotate_to_pose_def get_def)

lemma fourier_rotate_fields:
  "voxel_size (AbstractFourierVoxelGrid_rotate_to_pose f p) = voxel_size f"
  "coordinates.more (frequency_slice (AbstractFourierVoxelGrid_rotate_to_pose f p)) = coordinates.more (frequency_slice f)"
  "array (frequency_slice (AbstractFourierVoxelGrid_rotate_to_pose f p)) = rotate_coordinates p (array (frequency_slice f)) True"
  by (simp_all add: fourier_rotate)

lemma fourier_rotate_grid:
  "fourier_voxel_grid (AbstractFourierVoxelGrid_rotate_to_pose f p) = fourier_voxel_grid f"
  by (simp add: fourier_rotate)

lemma fourier_rotate_coefficients:
  "coefficients (AbstractFourierVoxelGrid_rotate_to_pose f p) = coefficients f"
  by (simp add: fourier_rotate)

lemma real_grid_rotate_fields:
  "voxel_size (RealVoxelGrid_rotate_to_pose g p) = voxel_size g"
  "real_voxel_grid (RealVoxelGrid_rotate_to_pose g p) = real_voxel_grid g"
  "coordinates.more (coordinate_grid (RealVoxelGrid_rotate_to_pose g p)) = coordinates.more (coordinate_grid g)"
  "array (coordinate_grid (RealVoxelGrid_rotate_to_pose g p)) = rotate_coordinates p (array (coordinate_grid g)) False"
  by (simp_all add: real_grid_rotate)

lemma real_cloud_rotate_fields:
  "voxel_size (RealVoxelCloud_rotate_to_pose c p) = voxel_size c"
  "voxel_weights (RealVoxelCloud_rotate_to_pose c p) = voxel_weights c"
  "coordinates.more (coordinate_list (RealVoxelCloud_rotate_to_pose c p)) = coordinates.more (coordinate_list c)"
  "array (coordinate_list (RealVoxelCloud_rotate_to_pose c p)) = rotate_coordinates p (array (coordinate_list c)) False"
  by (simp_all add: real_cloud_rotate)

text \<open>
  Claim C1. For each of the four voxel potentials and every pose, \<open>rotate_to_pose\<close>
  returns the instance with only the array of its geometry field replaced, by
  \<open>pose.rotate_coordinates\<close> of the current array with \<open>inverse=True\<close> for
  \<open>FourierVoxelGrid\<close> and \<open>FourierVoxelGridInterpolator\<close> and \<open>inverse=False\<close> for
  \<open>RealVoxelGrid\<close> and \<open>RealVoxelCloud\<close>; the stored grid, coefficients or weights,
  the voxel size and the rest of the geometry object are unchanged.
\<close>

theorem rotate_to_pose_replaces_only_geometry_array:
  fixes f :: "'m FourierVoxelGrid" and fi :: "'m FourierVoxelGridInterpolator"
    and g :: "'m RealVoxelGrid" and c :: "'m RealVoxelCloud"
  shows
  "AbstractFourierVoxelGrid_rotate_to_pose f p =
     f\<lparr>frequency_slice := (frequency_slice f)\<lparr>array := rotate_coordinates p (array (frequency_slice f)) True\<rparr>\<rparr>
   \<and> array (frequency_slice (AbstractFourierVoxelGrid_rotate_to_pose f p)) = rotate_coordinates p (array (frequency_slice f)) True
   \<and> coordinates.more (frequency_slice (AbstractFourierVoxelGrid_rotate_to_pose f p)) = coordinates.more (frequency_slice f)
   \<and> fourier_voxel_grid (AbstractFourierVoxelGrid_rotate_to_pose f p) = fourier_voxel_grid f
   \<and> voxel_size (AbstractFourierVoxelGrid_rotate_to_pose f p) = voxel_size f
   \<and> AbstractFourierVoxelGrid_rotate_to_pose fi p =
     fi\<lparr>frequency_slice := (frequency_slice fi)\<lparr>array := rotate_coordinates p (array (frequency_slice fi)) True\<rparr>\<rparr>
   \<and> array (frequency_slice (AbstractFourierVoxelGrid_rotate_to_pose fi p)) = rotate_coordinates p (array (frequency_slice fi)) True
   \<and> coordinates.more (frequency_slice (AbstractFourierVoxelGrid_rotate_to_pose fi p)) = coordinates.more (frequency_slice fi)
   \<and> coefficients (AbstractFourierVoxelGrid_rotate_to_pose fi p) = coefficients fi
   \<and> voxel_size (AbstractFourierVoxelGrid_rotate_to_pose fi p) = voxel_size fi
   \<and> RealVoxelGrid_rotate_to_pose g p =
     g\<lparr>coordinate_grid := (coordinate_grid g)\<lparr>array := rotate_coordinates p (array (coordinate_grid g)) False\<rparr>\<rparr>
   \<and> array (coordinate_grid (RealVoxelGrid_rotate_to_pose g p)) = rotate_coordinates p (array (coordinate_grid g)) False
   \<and> coordinates.more (coordinate_grid (RealVoxelGrid_rotate_to_pose g p)) = coordinates.more (coordinate_grid g)
   \<and> real_voxel_grid (RealVoxelGrid_rotate_to_pose g p) = real_voxel_grid g
   \<and> voxel_size (RealVoxelGrid_rotate_to_pose g p) = voxel_size g
   \<and> RealVoxelCloud_rotate_to_pose c p =
     c\<lparr>coordinate_list := (coordinate_list c)\<lparr>array := rotate_coordinates p (array (coordinate_list c)) False\<rparr>\<rparr>
   \<and> array (coordinate_list (RealVoxelCloud_rotate_to_pose c p)) = rotate_coordinates p (array (coordinate_list c)) False
   \<and> coordinates.more (coordinate_list (RealVoxelCloud_rotate_to_pose c p)) = coordinates.more (coordinate_list c)
   \<and> voxel_weights (RealVoxelCloud_rotate_to_pose c p) = voxel_weights c
   \<and> voxel_size (RealVoxelCloud_rotate_to_pose c p) = voxel_size c"
  by (intro conjI)
     (rule fourier_rotate real_grid_rotate real_cloud_rotate fourier_rotate_fields
        fourier_rotate_grid fourier_rotate_coefficients real_grid_rotate_fields
        real_cloud_rotate_fields)+


section \<open>The axis transpose and the scale checks of the constructors\<close>

lemma upt3: "[0..<3] = [0, 1, 2]"
  by (simp add: upt_rec)

lemma transpose_102: "ndim a = 3 \<Longrightarrow> transpose_nd a [1, 0, 2] = Inr (swap01 a)"
  by (simp add: transpose_nd_def swap01_def upt3 numeral_2_eq_2)

lemma transpose_102_bad:
  assumes "ndim a \<noteq> 3"
  shows "transpose_nd a [1, 0, 2] = Inl ArrayLibraryError"
proof -
  have "sort [1, 0, 2::nat] \<noteq> [0..<ndim a]"
  proof
    assume "sort [1, 0, 2::nat] = [0..<ndim a]"
    then have "length (sort [1, 0, 2::nat]) = length [0..<ndim a]"
      by (rule arg_cong)
    then show False using assms by simp
  qed
  then show ?thesis
    unfolding transpose_nd_def by (rule if_P)
qed

lemma ndim_swap01: "ndim (swap01 a) = 3"
  by (simp add: ndim_def swap01_def)

lemma ndim_example_grid: "ndim example_grid = 3"
  by (simp add: ndim_def example_grid_def)

lemma RealVoxelGrid_crop_error:
  "ndim G = 3 \<Longrightarrow> 1 < cs \<Longrightarrow>
     RealVoxelGrid_from_real_voxel_grid crop_to_shape CoordinateGrid G vs None (Some cs)
       = Inl (ValueError ''crop_scale must be less than 1.0'')"
  unfolding RealVoxelGrid_from_real_voxel_grid_def
  by (simp only: transpose_102 sum.case option.case if_True)

text \<open>
  Claim C10. When an explicit coordinate grid is supplied to
  \<open>RealVoxelGrid.from_real_voxel_grid\<close>, the argument \<open>crop_scale\<close> is ignored: whatever
  its value, nothing is cropped and nothing is raised; the transposed grid is stored
  with the supplied coordinate grid.
\<close>

theorem crop_scale_ignored_with_coordinate_grid:
  "ndim G = 3 \<Longrightarrow>
     RealVoxelGrid_from_real_voxel_grid crop_to_shape CoordinateGrid G vs (Some cg) crop_scale
       = Inr (RealVoxelGrid_init (swap01 G) cg vs)"
  unfolding RealVoxelGrid_from_real_voxel_grid_def
  by (simp only: transpose_102 sum.case option.case)

theorem crop_scale_ignored_with_coordinate_grid_witness:
  "ndim example_grid = 3 \<and>
   RealVoxelGrid_from_real_voxel_grid example_crop_to_shape example_CoordinateGrid example_grid 1
       (Some example_coordinates) (Some 2)
     = Inr (RealVoxelGrid_init (swap01 example_grid) example_coordinates 1) \<and>
   RealVoxelGrid_from_real_voxel_grid example_crop_to_shape example_CoordinateGrid example_grid 1
       None (Some 2)
     = Inl (ValueError ''crop_scale must be less than 1.0'')"
proof -
  have two: "(1::real) < 2" by simp
  show ?thesis
    using crop_scale_ignored_with_coordinate_grid [OF ndim_example_grid,
        of example_crop_to_shape example_CoordinateGrid 1 example_coordinates "Some 2"]
      RealVoxelGrid_crop_error [OF ndim_example_grid two,
        of example_crop_to_shape example_CoordinateGrid 1]
      ndim_example_grid
    by blast
qed

text \<open>
  Claim C4. The Fourier-space \<open>from_real_voxel_grid\<close> is said to pad to a shape whose
  extents \<open>int(s * pad_scale)\<close> are even. For a grid of shape \<open>(3, 3, 3)\<close> and
  \<open>pad_scale = 1.0\<close> the shape handed to \<open>pad_to_shape\<close> is \<open>(3, 3, 3)\<close>, which is odd.
\<close>

theorem padded_shape_odd_at_3_3_3:
  "padded_shape [3, 3, 3] 1 = [3, 3, 3] \<and> \<not> list_all even (padded_shape [3, 3, 3] 1) \<and>
   AbstractFourierVoxelGrid_from_real_voxel_grid cls pad_to_shape fftn FrequencySlice
       \<lparr>shape = [3, 3, 3], item = f\<rparr> vs 1 pad_mode None
     = cls (fftshift (fftn (pad_to_shape \<lparr>shape = [3, 3, 3], item = f\<rparr> [3, 3, 3] pad_mode)))
         (FrequencySlice (butlast (shape (pad_to_shape \<lparr>shape = [3, 3, 3], item = f\<rparr> [3, 3, 3] pad_mode))) False) vs"
  by (simp add: padded_shape_def py_int_def AbstractFourierVoxelGrid_from_real_voxel_grid_def Let_def)


section \<open>The retained points of the voxel cloud\<close>

lemma list3: "length s = 3 \<Longrightarrow> [s ! 0, s ! Suc 0, s ! Suc (Suc 0)] = (s::'a list)"
  by (auto simp: numeral_3_eq_3 length_Suc_conv)

lemma swap01_swap01:
  "ndim a = 3 \<Longrightarrow> shape (swap01 (swap01 a)) = shape a"
  "item (swap01 (swap01 a)) [i, j, k] = item a [i, j, k]"
  "item (swap01 a) [i, j, k] = item a [j, i, k]"
  by (simp_all add: swap01_def ndim_def list3 numeral_2_eq_2)

lemma RealVoxelGrid_with_coordinate_grid:
  "ndim G = 3 \<Longrightarrow>
     RealVoxelGrid_from_real_voxel_grid crop_to_shape CoordinateGrid G vs (Some cg) crop_scale
       = Inr (RealVoxelGrid_init (swap01 G) cg vs)"
  unfolding RealVoxelGrid_from_real_voxel_grid_def
  by (simp only: transpose_102 sum.case option.case)

lemma RealVoxelGrid_no_crop:
  "ndim G = 3 \<Longrightarrow>
     RealVoxelGrid_from_real_voxel_grid crop_to_shape CoordinateGrid G vs None None
       = Inr (RealVoxelGrid_init (swap01 G) (CoordinateGrid (last3 (shape (swap01 G)))) vs)"
  unfolding RealVoxelGrid_from_real_voxel_grid_def
  by (simp only: transpose_102 sum.case option.case)

lemma RealVoxelGrid_crop:
  "ndim G = 3 \<Longrightarrow> \<not> 1 < cs \<Longrightarrow>
     \<exists>obj. RealVoxelGrid_from_real_voxel_grid crop_to_shape CoordinateGrid G vs None (Some cs) = Inr obj"
  unfolding RealVoxelGrid_from_real_voxel_grid_def
  by (simp only: transpose_102 sum.case option.case if_False Let_def) blast

lemma RealVoxelCloud_result:
  "ndim G = 3 \<Longrightarrow>
     RealVoxelCloud_from_real_voxel_grid CoordinateGrid CoordinateList G vs cg_opt rtol atol
       = Inr (RealVoxelCloud_init
           (take_indices (swap01 G) 3 (retained (swap01 G) rtol atol))
           (CoordinateList (take_indices
              (get (case cg_opt of None \<Rightarrow> CoordinateGrid (shape (swap01 G)) | Some c \<Rightarrow> c)) 3
              (retained (swap01 G) rtol atol))) vs)"
  unfolding RealVoxelCloud_from_real_voxel_grid_def retained_def
  by (simp only: transpose_102 sum.case Let_def ndim_swap01)

lemma real_voxel_grid_init: "real_voxel_grid (RealVoxelGrid_init g cg vs) = g"
  by (simp add: RealVoxelGrid_init_def)

lemma in_indices_of3:
  "idx \<in> set (indices_of [a, b, c]) \<longleftrightarrow> (\<exists>i j k. idx = [i, j, k] \<and> i < a \<and> j < b \<and> k < c)"
proof -
  have "set (indices_of [a, b, c]) =
      {xs. list_all2 (\<lambda>x ys. x \<in> set ys) xs [[0..<a], [0..<b], [0..<c]]}"
    unfolding indices_of_def by (simp only: product_lists_set list.map)
  then show ?thesis
    by (auto simp: list_all2_Cons2)
qed

lemma distinct_indices_of: "distinct (indices_of shp)"
  unfolding indices_of_def by (rule distinct_product_lists) auto

lemma distinct_singleton:
  assumes "distinct ys" and "set ys = {x}"
  shows "ys = [x]"
proof (cases ys)
  case Nil
  with assms(2) show ?thesis by simp
next
  case (Cons a zs)
  have "a \<in> {x}" using assms(2) Cons by (metis list.set_intros(1))
  then have a: "a = x" by simp
  have notin: "x \<notin> set zs" using assms(1) Cons a by simp
  have sub: "set zs \<subseteq> {x}" using assms(2) Cons by (metis set_subset_Cons)
  have "zs = []"
  proof (rule ccontr)
    assume "zs \<noteq> []"
    then obtain b where b: "b \<in> set zs" by (cases zs) auto
    with sub have "b = x" by blast
    with b notin show False by simp
  qed
  with a Cons show ?thesis by simp
qed

lemma filter_unique:
  assumes "distinct xs" and "x \<in> set xs" and "P x" and "\<forall>y\<in>set xs. P y \<longrightarrow> y = x"
  shows "filter P xs = [x]"
proof (rule distinct_singleton)
  show "distinct (filter P xs)" using assms(1) by (rule distinct_filter)
  have "set (filter P xs) = {y \<in> set xs. P y}" by (rule set_filter)
  also have "\<dots> = {x}" using assms(2-4) by blast
  finally show "set (filter P xs) = {x}" .
qed

lemma isclose_zero: "isclose v 0 rtol atol \<longleftrightarrow> \<bar>v\<bar> \<le> atol"
  by (simp add: isclose_def)

lemma shape_swap01: "shape a = [n0, n1, n2] \<Longrightarrow> shape (swap01 a) = [n1, n0, n2]"
  by (simp add: swap01_def numeral_2_eq_2)

lemma item_swap01: "item (swap01 a) [j, i, k] = item a [i, j, k]"
  by (simp add: swap01_def numeral_2_eq_2)

lemma retained_none:
  assumes "shape G = [n0, n1, n2]"
    and "\<forall>i<n0. \<forall>j<n1. \<forall>k<n2. \<bar>item G [i, j, k]\<bar> \<le> atol"
  shows "retained (swap01 G) rtol atol = []"
proof -
  have "\<forall>idx\<in>set (indices_of [n1, n0, n2]). isclose (item (swap01 G) idx) 0 rtol atol"
    using assms(2) by (auto simp: in_indices_of3 item_swap01 isclose_zero)
  then show ?thesis
    by (simp add: retained_def where_nd_def shape_swap01 [OF assms(1)] filter_empty_conv)
qed

lemma retained_one:
  assumes "shape G = [n0, n1, n2]" and "i < n0" and "j < n1" and "k < n2"
    and "atol < \<bar>item G [i, j, k]\<bar>"
    and "\<forall>i'<n0. \<forall>j'<n1. \<forall>k'<n2. [i', j', k'] \<noteq> [i, j, k] \<longrightarrow> \<bar>item G [i', j', k']\<bar> \<le> atol"
  shows "retained (swap01 G) rtol atol = [[j, i, k]]"
proof -
  let ?P = "\<lambda>idx. \<not> isclose (item (swap01 G) idx) 0 rtol atol"
  have mem: "[j, i, k] \<in> set (indices_of [n1, n0, n2])"
    using assms(2-4) by (simp add: in_indices_of3)
  have here: "?P [j, i, k]"
    using assms(5) by (simp add: item_swap01 isclose_zero)
  have others: "\<forall>y\<in>set (indices_of [n1, n0, n2]). ?P y \<longrightarrow> y = [j, i, k]"
  proof (intro ballI impI)
    fix y assume y: "y \<in> set (indices_of [n1, n0, n2])" and py: "?P y"
    from y obtain j' i' k' where yeq: "y = [j', i', k']" and b: "j' < n1" "i' < n0" "k' < n2"
      by (auto simp: in_indices_of3)
    from py yeq have "\<not> \<bar>item G [i', j', k']\<bar> \<le> atol"
      by (simp add: item_swap01 isclose_zero)
    with assms(6) b have "[i', j', k'] = [i, j, k]" by blast
    with yeq show "y = [j, i, k]" by simp
  qed
  have "filter ?P (indices_of [n1, n0, n2]) = [[j, i, k]]"
    by (rule filter_unique [OF distinct_indices_of mem here others])
  then show ?thesis
    by (simp add: retained_def where_nd_def shape_swap01 [OF assms(1)])
qed

lemma ndim3: "shape G = [n0, n1, n2] \<Longrightarrow> ndim G = 3"
  by (simp add: ndim_def)

lemma take_indices_nil: "shape (take_indices a 3 []) = 0 # drop 3 (shape a)"
  by (simp add: take_indices_def)

lemma take_indices_one:
  "shape (take_indices a 3 [idx]) = 1 # drop 3 (shape a)"
  "item (take_indices a 3 [idx]) (0 # rest) = item a (idx @ rest)"
  by (simp_all add: take_indices_def)

lemma cloud_fields:
  "voxel_weights (RealVoxelCloud_init w cl vs) = w"
  "coordinate_list (RealVoxelCloud_init w cl vs) = cl"
  "voxel_size (RealVoxelCloud_init w cl vs) = vs"
  by (simp_all add: RealVoxelCloud_init_def)

lemma cloud_all_close:
  assumes "shape G = [n0, n1, n2]"
    and "\<forall>i<n0. \<forall>j<n1. \<forall>k<n2. \<bar>item G [i, j, k]\<bar> \<le> atol"
  shows "\<exists>obj. RealVoxelCloud_from_real_voxel_grid CoordinateGrid CoordinateList G vs cg_opt rtol atol = Inr obj
           \<and> shape (voxel_weights obj) = [0]
           \<and> coordinate_list obj = CoordinateList (take_indices
                (get (case cg_opt of None \<Rightarrow> CoordinateGrid (shape (swap01 G)) | Some c \<Rightarrow> c)) 3 [])"
  by (simp add: RealVoxelCloud_result [OF ndim3 [OF assms(1)]] retained_none [OF assms]
        cloud_fields take_indices_nil shape_swap01 [OF assms(1)])

lemma cloud_one_far:
  assumes "shape G = [n0, n1, n2]" and "i < n0" and "j < n1" and "k < n2"
    and "atol < \<bar>item G [i, j, k]\<bar>"
    and "\<forall>i'<n0. \<forall>j'<n1. \<forall>k'<n2. [i', j', k'] \<noteq> [i, j, k] \<longrightarrow> \<bar>item G [i', j', k']\<bar> \<le> atol"
  shows "\<exists>obj. RealVoxelCloud_from_real_voxel_grid CoordinateGrid CoordinateList G vs cg_opt rtol atol = Inr obj
           \<and> shape (voxel_weights obj) = [1]
           \<and> item (voxel_weights obj) [0] = item G [i, j, k]
           \<and> coordinate_list obj = CoordinateList (take_indices
                (get (case cg_opt of None \<Rightarrow> CoordinateGrid (shape (swap01 G)) | Some c \<Rightarrow> c)) 3 [[j, i, k]])"
  by (simp add: RealVoxelCloud_result [OF ndim3 [OF assms(1)]] retained_one [OF assms]
        cloud_fields take_indices_one shape_swap01 [OF assms(1)] item_swap01)

text \<open>
  Claim C5. \<open>RealVoxelGrid.from_real_voxel_grid\<close> without cropping (no \<open>crop_scale\<close>, or
  a coordinate grid supplied) and \<open>RealVoxelCloud.from_real_voxel_grid\<close> work on the
  grid with axes 0 and 1 exchanged right after the cast: the stored grid is
  \<open>transpose(G, [1, 0, 2])\<close>, transposing it again gives \<open>G\<close> back, and the voxel
  cloud computes its mask of retained points on the transposed grid.
\<close>

theorem axes_swapped_on_load:
  "ndim G = 3 \<Longrightarrow>
     RealVoxelGrid_from_real_voxel_grid crop_to_shape CoordinateGrid G vs None None
       = Inr (RealVoxelGrid_init (swap01 G) (CoordinateGrid (last3 (shape (swap01 G)))) vs)
   \<and> RealVoxelGrid_from_real_voxel_grid crop_to_shape CoordinateGrid G vs (Some cg) crop_scale
       = Inr (RealVoxelGrid_init (swap01 G) cg vs)
   \<and> real_voxel_grid (RealVoxelGrid_init (swap01 G) cg vs) = swap01 G
   \<and> transpose_nd G [1, 0, 2] = Inr (swap01 G)
   \<and> transpose_nd (swap01 G) [1, 0, 2] = Inr (swap01 (swap01 G))
   \<and> shape (swap01 (swap01 G)) = shape G
   \<and> item (swap01 (swap01 G)) [i, j, k] = item G [i, j, k]
   \<and> item (swap01 G) [i, j, k] = item G [j, i, k]
   \<and> RealVoxelCloud_from_real_voxel_grid CoordinateGrid' CoordinateList G vs cg_opt rtol atol
       = Inr (RealVoxelCloud_init
           (take_indices (swap01 G) 3 (retained (swap01 G) rtol atol))
           (CoordinateList (take_indices
              (get (case cg_opt of None \<Rightarrow> CoordinateGrid' (shape (swap01 G)) | Some c \<Rightarrow> c)) 3
              (retained (swap01 G) rtol atol))) vs)"
  by (intro conjI)
     (rule RealVoxelGrid_no_crop RealVoxelGrid_with_coordinate_grid real_voxel_grid_init
        transpose_102 swap01_swap01 RealVoxelCloud_result ndim_swap01 | assumption)+

theorem axes_swapped_on_load_witness:
  "ndim example_grid = 3
   \<and> RealVoxelGrid_from_real_voxel_grid example_crop_to_shape example_CoordinateGrid example_grid 1 None None
       = Inr (RealVoxelGrid_init (swap01 example_grid)
            (example_CoordinateGrid (last3 (shape (swap01 example_grid)))) 1)
   \<and> item (swap01 example_grid) [0, 1, 2] = item example_grid [1, 0, 2]
   \<and> shape (swap01 example_grid) = [2, 1, 3]"
  using axes_swapped_on_load [OF ndim_example_grid, of example_crop_to_shape example_CoordinateGrid 1
      example_coordinates "None" 0 1 2 example_CoordinateGrid example_CoordinateList None 0 0]
    ndim_example_grid
  by (simp add: swap01_def example_grid_def)

text \<open>
  Claim C9, as stated: a grid with exactly one non-zero voxel yields exactly one
  retained point. The single voxel of \<open>tiny_grid\<close> is \<open>1e-9\<close>, non-zero but within the
  default absolute tolerance \<open>1e-8\<close>: it is discarded and no point is retained.
\<close>

theorem tiny_nonzero_voxel_discarded:
  "shape tiny_grid = [1, 1, 1] \<and> item tiny_grid [0, 0, 0] \<noteq> 0
   \<and> map_sum id (\<lambda>obj. shape (voxel_weights obj))
        (RealVoxelCloud_from_real_voxel_grid example_CoordinateGrid example_CoordinateList
           tiny_grid 1 None default_rtol default_atol) = Inr [0]"
proof -
  have sh: "shape tiny_grid = [1, 1, 1]" by (simp add: tiny_grid_def)
  have close: "\<forall>i<1. \<forall>j<1. \<forall>k<1. \<bar>item tiny_grid [i, j, k]\<bar> \<le> default_atol"
    by (simp add: tiny_grid_def default_atol_def)
  from cloud_all_close [OF sh close, of example_CoordinateGrid example_CoordinateList 1 None default_rtol]
  obtain obj where "RealVoxelCloud_from_real_voxel_grid example_CoordinateGrid example_CoordinateList
           tiny_grid 1 None default_rtol default_atol = Inr obj" "shape (voxel_weights obj) = [0]"
    by blast
  then show ?thesis using sh by (simp add: tiny_grid_def)
qed

text \<open>
  Claim C9, amended. Under the default tolerances a voxel \<open>v\<close> is discarded exactly
  when \<open>|v| \<le> 1e-8\<close>. A grid all of whose voxels are within that tolerance (an
  all-zero grid in particular) yields no retained point. A grid with exactly one voxel
  \<open>G[i, j, k]\<close> of magnitude above the tolerance yields exactly one point: its weight is
  that voxel's value and its coordinate is the entry of the coordinate grid at the
  transposed index \<open>[j, i, k]\<close>.
\<close>

theorem voxel_cloud_retained_points:
  "shape G = [n0, n1, n2] \<Longrightarrow>
   ((\<forall>i<n0. \<forall>j<n1. \<forall>k<n2. \<bar>item G [i, j, k]\<bar> \<le> default_atol) \<longrightarrow>
      (\<exists>obj. RealVoxelCloud_from_real_voxel_grid CoordinateGrid CoordinateList G vs cg_opt
                default_rtol default_atol = Inr obj
         \<and> shape (voxel_weights obj) = [0]
         \<and> coordinate_list obj = CoordinateList (take_indices
                (get (case cg_opt of None \<Rightarrow> CoordinateGrid (shape (swap01 G)) | Some c \<Rightarrow> c)) 3 [])))
   \<and> (i < n0 \<and> j < n1 \<and> k < n2 \<and> default_atol < \<bar>item G [i, j, k]\<bar>
       \<and> (\<forall>i'<n0. \<forall>j'<n1. \<forall>k'<n2. [i', j', k'] \<noteq> [i, j, k] \<longrightarrow> \<bar>item G [i', j', k']\<bar> \<le> default_atol) \<longrightarrow>
      (\<exists>obj. RealVoxelCloud_from_real_voxel_grid CoordinateGrid CoordinateList G vs cg_opt
                default_rtol default_atol = Inr obj
         \<and> shape (voxel_weights obj) = [1]
         \<and> item (voxel_weights obj) [0] = item G [i, j, k]
         \<and> coordinate_list obj = CoordinateList (take_indices
                (get (case cg_opt of None \<Rightarrow> CoordinateGrid (shape (swap01 G)) | Some c \<Rightarrow> c)) 3 [[j, i, k]])))
   \<and> (isclose v 0 default_rtol default_atol \<longleftrightarrow> \<bar>v\<bar> \<le> 1 / 10 ^ 8)"
proof (intro conjI impI)
  assume sh: "shape G = [n0, n1, n2]"
  {
    assume "\<forall>i<n0. \<forall>j<n1. \<forall>k<n2. \<bar>item G [i, j, k]\<bar> \<le> default_atol"
    then show "\<exists>obj. RealVoxelCloud_from_real_voxel_grid CoordinateGrid CoordinateList G vs cg_opt
                default_rtol default_atol = Inr obj
         \<and> shape (voxel_weights obj) = [0]
         \<and> coordinate_list obj = CoordinateList (take_indices
                (get (case cg_opt of None \<Rightarrow> CoordinateGrid (shape (swap01 G)) | Some c \<Rightarrow> c)) 3 [])"
      by (rule cloud_all_close [OF sh])
  next
    assume a: "i < n0 \<and> j < n1 \<and> k < n2 \<and> default_atol < \<bar>item G [i, j, k]\<bar>
       \<and> (\<forall>i'<n0. \<forall>j'<n1. \<forall>k'<n2. [i', j', k'] \<noteq> [i, j, k] \<longrightarrow> \<bar>item G [i', j', k']\<bar> \<le> default_atol)"
    show "\<exists>obj. RealVoxelCloud_from_real_voxel_grid CoordinateGrid CoordinateList G vs cg_opt
                default_rtol default_atol = Inr obj
         \<and> shape (voxel_weights obj) = [1]
         \<and> item (voxel_weights obj) [0] = item G [i, j, k]
         \<and> coordinate_list obj = CoordinateList (take_indices
                (get (case cg_opt of None \<Rightarrow> CoordinateGrid (shape (swap01 G)) | Some c \<Rightarrow> c)) 3 [[j, i, k]])"
      by (rule cloud_one_far [OF sh]) (use a in blast)+
  next
    show "isclose v 0 default_rtol default_atol \<longleftrightarrow> \<bar>v\<bar> \<le> 1 / 10 ^ 8"
      by (simp add: isclose_zero default_atol_def)
  }
qed

theorem voxel_cloud_retained_points_witness:
  "shape (zeros [1, 2, 1]) = [1, 2, 1]
   \<and> map_sum id (\<lambda>obj. shape (voxel_weights obj))
        (RealVoxelCloud_from_real_voxel_grid example_CoordinateGrid example_CoordinateList
           (zeros [1, 2, 1]) 1 None default_rtol default_atol) = Inr [0]
   \<and> shape one_voxel_grid = [1, 2, 1]
   \<and> default_atol < \<bar>item one_voxel_grid [0, 1, 0]\<bar>
   \<and> map_sum id (\<lambda>obj. (shape (voxel_weights obj), item (voxel_weights obj) [0]))
        (RealVoxelCloud_from_real_voxel_grid example_CoordinateGrid example_CoordinateList
           one_voxel_grid 1 None default_rtol default_atol) = Inr ([1], 5)"
proof -
  have sh0: "shape (zeros [1, 2, 1]) = [1, 2, 1]" by (simp add: zeros_def)
  have z: "\<forall>i<1. \<forall>j<2. \<forall>k<1. \<bar>item (zeros [1, 2, 1]) [i, j, k]\<bar> \<le> default_atol"
    by (simp add: zeros_def default_atol_def)
  have sh1: "shape one_voxel_grid = [1, 2, 1]" by (simp add: one_voxel_grid_def)
  have far: "default_atol < \<bar>item one_voxel_grid [0, 1, 0]\<bar>"
    by (simp add: one_voxel_grid_def default_atol_def)
  have rest: "\<forall>i'<1. \<forall>j'<2. \<forall>k'<1. [i', j', k'] \<noteq> [0, 1, 0]
      \<longrightarrow> \<bar>item one_voxel_grid [i', j', k']\<bar> \<le> default_atol"
    by (simp add: one_voxel_grid_def default_atol_def)
  from voxel_cloud_retained_points [OF sh0, where CoordinateGrid = example_CoordinateGrid
      and CoordinateList = example_CoordinateList and vs = 1 and cg_opt = None] z
  obtain obj0 where obj0:
    "RealVoxelCloud_from_real_voxel_grid example_CoordinateGrid example_CoordinateList
       (zeros [1, 2, 1]) 1 None default_rtol default_atol = Inr obj0"
    "shape (voxel_weights obj0) = [0]"
    by blast
  have idx: "(0::nat) < 1 \<and> (1::nat) < 2 \<and> (0::nat) < 1" by simp
  from voxel_cloud_retained_points [OF sh1, where CoordinateGrid = example_CoordinateGrid
      and CoordinateList = example_CoordinateList and vs = 1 and cg_opt = None
      and i = 0 and j = 1 and k = 0] idx far rest
  obtain obj1 where obj1:
    "RealVoxelCloud_from_real_voxel_grid example_CoordinateGrid example_CoordinateList
       one_voxel_grid 1 None default_rtol default_atol = Inr obj1"
    "shape (voxel_weights obj1) = [1]"
    "item (voxel_weights obj1) [0] = item one_voxel_grid [0, 1, 0]"
    by blast
  have five: "item one_voxel_grid [0, 1, 0] = 5" by (simp add: one_voxel_grid_def)
  show ?thesis
    using sh0 sh1 far obj0 obj1 five by simp
qed

section \<open>Shapes of the spline coefficients\<close>

lemma build_operator_small: "n < 3 \<Longrightarrow> build_operator (int n - 2) d = Inl ArrayLibraryError"
  by (simp add: build_operator_def full_def)

lemma build_operator_ok: "3 \<le> n \<Longrightarrow> build_operator (int n - 2) 4 = Inr (spline_operator n)"
  by (simp add: build_operator_def full_def spline_operator_def nat_diff_distrib')

lemma build_operator_error: "build_operator n d = Inl e \<Longrightarrow> e = ArrayLibraryError"
  by (auto simp: build_operator_def full_def split: if_splits)

lemma length_thomas_forward: "length (thomas_forward cp dp rows) = length rows"
  by (induction rows arbitrary: cp dp) (auto simp: Let_def)

lemma length_thomas_backsub: "length (thomas_backsub xs) = length xs"
  by (induction xs) (auto simp: Let_def)

lemma length_construct_vector: "length (construct_vector data c2 cnp2) = length data - 2"
  by (simp add: construct_vector_def Let_def)

lemma length_linear_solve_spline:
  "3 \<le> n \<Longrightarrow> length v = n - 2 \<Longrightarrow> length (linear_solve (spline_operator n) v) = n - 2"
  by (auto simp: linear_solve_def spline_operator_def length_thomas_forward length_thomas_backsub)

lemma length_solve_coefficients:
  "3 \<le> length data \<Longrightarrow> length (solve_coefficients data (spline_operator (length data))) = length data + 2"
  by (simp add: solve_coefficients_def Let_def length_linear_solve_spline length_construct_vector)

lemma length_line_through: "length (line_through a axis idx) = shape a ! axis"
  by (simp add: line_through_def)

lemma shape_along_axis_spline:
  "3 \<le> shape a ! axis \<Longrightarrow>
     shape (along_axis axis (\<lambda>x. solve_coefficients x (spline_operator (shape a ! axis))) a)
       = (shape a)[axis := shape a ! axis + 2]"
  using length_solve_coefficients [of "line_through a axis (replicate (ndim a) 0)"]
  by (simp add: along_axis_def length_line_through)

lemma spline_axes_error: "spline_axes axes d = Inl e \<Longrightarrow> e = ArrayLibraryError"
  by (induction axes arbitrary: d) (auto split: sum.splits dest: build_operator_error)

lemma spline_axes_shape:
  "distinct axes \<Longrightarrow> \<forall>ax\<in>set axes. ax < ndim d \<and> 3 \<le> shape d ! ax \<Longrightarrow>
     \<exists>r. spline_axes axes d = Inr r \<and> length (shape r) = ndim d \<and>
         (\<forall>i<ndim d. shape r ! i = (if i \<in> set axes then shape d ! i + 2 else shape d ! i))"
proof (induction axes arbitrary: d)
  case Nil
  then show ?case by (simp add: ndim_def)
next
  case (Cons ax rest)
  let ?d' = "along_axis ax (\<lambda>x. solve_coefficients x (spline_operator (shape d ! ax))) d"
  have ax: "ax < ndim d" "3 \<le> shape d ! ax" "ax \<notin> set rest" "distinct rest"
    using Cons.prems by auto
  have sh: "shape ?d' = (shape d)[ax := shape d ! ax + 2]"
    by (rule shape_along_axis_spline [OF ax(2)])
  have nd: "ndim ?d' = ndim d" by (simp add: ndim_def sh)
  have rest_ok: "\<forall>a\<in>set rest. a < ndim ?d' \<and> 3 \<le> shape ?d' ! a"
  proof
    fix a assume a: "a \<in> set rest"
    then have "a \<noteq> ax" using ax(3) by blast
    moreover have "a < ndim d \<and> 3 \<le> shape d ! a" using Cons.prems(2) a by simp
    ultimately show "a < ndim ?d' \<and> 3 \<le> shape ?d' ! a"
      by (simp add: nd sh)
  qed
  from Cons.IH [OF ax(4) rest_ok] obtain r where
    r: "spline_axes rest ?d' = Inr r" "length (shape r) = ndim ?d'"
       "\<forall>i<ndim ?d'. shape r ! i = (if i \<in> set rest then shape ?d' ! i + 2 else shape ?d' ! i)"
    by blast
  have step: "spline_axes (ax # rest) d = Inr r"
    by (simp add: build_operator_ok [OF ax(2)] r(1))
  have "\<forall>i<ndim d. shape r ! i = (if i \<in> set (ax # rest) then shape d ! i + 2 else shape d ! i)"
  proof (intro allI impI)
    fix i assume i: "i < ndim d"
    show "shape r ! i = (if i \<in> set (ax # rest) then shape d ! i + 2 else shape d ! i)"
    proof (cases "i = ax")
      case True
      then show ?thesis using r(3) i ax by (simp add: nd sh ndim_def)
    next
      case False
      then show ?thesis using r(3) i by (simp add: nd sh)
    qed
  qed
  with step r(2) nd show ?case by simp
qed

lemma spline_axes_fails:
  "ax \<in> set axes \<Longrightarrow> distinct axes \<Longrightarrow> \<forall>a\<in>set axes. a < ndim d \<Longrightarrow> shape d ! ax < 3 \<Longrightarrow>
     spline_axes axes d = Inl ArrayLibraryError"
proof (induction axes arbitrary: d)
  case Nil
  then show ?case by simp
next
  case (Cons a rest)
  show ?case
  proof (cases "shape d ! a < 3")
    case True
    then show ?thesis by (simp add: build_operator_small)
  next
    case False
    then have a3: "3 \<le> shape d ! a" by simp
    let ?d' = "along_axis a (\<lambda>x. solve_coefficients x (spline_operator (shape d ! a))) d"
    have sh: "shape ?d' = (shape d)[a := shape d ! a + 2]"
      by (rule shape_along_axis_spline [OF a3])
    have nd: "ndim ?d' = ndim d" by (simp add: ndim_def sh)
    have neq: "ax \<noteq> a" using False Cons.prems(4) by auto
    then have mem: "ax \<in> set rest" using Cons.prems(1) by simp
    have "spline_axes rest ?d' = Inl ArrayLibraryError"
    proof (rule Cons.IH [OF mem])
      show "distinct rest" using Cons.prems(2) by simp
      show "\<forall>a\<in>set rest. a < ndim ?d'" using Cons.prems(3) by (simp add: nd)
      show "shape ?d' ! ax < 3" using Cons.prems(4) neq by (simp add: sh)
    qed
    then show ?thesis by (simp add: build_operator_ok [OF a3])
  qed
qed

lemma spline_coefficients_shape:
  assumes "list_all (\<lambda>s. 3 \<le> s) (shape d)"
  shows "\<exists>r. spline_coefficients d = Inr r \<and> shape r = map (\<lambda>s. s + 2) (shape d)"
proof -
  have "\<forall>ax\<in>set (rev [0..<ndim d]). ax < ndim d \<and> 3 \<le> shape d ! ax"
    using assms by (auto simp: list_all_length ndim_def)
  from spline_axes_shape [OF _ this] obtain r where
    r: "spline_axes (rev [0..<ndim d]) d = Inr r" "length (shape r) = ndim d"
       "\<forall>i<ndim d. shape r ! i = (if i \<in> set (rev [0..<ndim d]) then shape d ! i + 2 else shape d ! i)"
    by auto
  have "shape r = map (\<lambda>s. s + 2) (shape d)"
    using r(2,3) by (intro nth_equalityI) (auto simp: ndim_def)
  with r(1) show ?thesis by (simp add: spline_coefficients_def)
qed

lemma spline_coefficients_fails:
  assumes "\<not> list_all (\<lambda>s. 3 \<le> s) (shape d)"
  shows "spline_coefficients d = Inl ArrayLibraryError"
proof -
  from assms obtain ax where ax: "ax < ndim d" "shape d ! ax < 3"
    by (auto simp: list_all_length ndim_def not_le)
  show ?thesis
    unfolding spline_coefficients_def
    by (rule spline_axes_fails [of ax]) (use ax in auto)
qed






section \<open>Failures of the constructors\<close>

lemma interpolator_init_error:
  "FourierVoxelGridInterpolator_init fg fs vs = Inl e \<Longrightarrow> e = ArrayLibraryError"
  by (auto simp: FourierVoxelGridInterpolator_init_def compute_spline_coefficients_def
        spline_coefficients_def split: sum.splits dest: spline_axes_error)

lemma fourier_pad_scale_small:
  "ps < 1 \<Longrightarrow> AbstractFourierVoxelGrid_from_real_voxel_grid cls pad fftn FS G vs ps pm flt
     = Inl (ValueError ''pad_scale must be greater than 1.0'')"
  by (simp add: AbstractFourierVoxelGrid_from_real_voxel_grid_def)

lemma fourier_pad_scale_ok:
  "\<not> ps < 1 \<Longrightarrow> \<exists>fg fs. AbstractFourierVoxelGrid_from_real_voxel_grid cls pad fftn FS G vs ps pm flt
     = cls fg fs vs"
  by (simp add: AbstractFourierVoxelGrid_from_real_voxel_grid_def Let_def) blast

lemma fourier_grid_failure:
  "(AbstractFourierVoxelGrid_from_real_voxel_grid FourierVoxelGrid_init pad fftn FS G vs ps pm flt = Inl e)
     \<longleftrightarrow> (ps < 1 \<and> e = ValueError ''pad_scale must be greater than 1.0'')"
proof (cases "ps < 1")
  case True
  then show ?thesis by (auto simp: fourier_pad_scale_small)
next
  case False
  from fourier_pad_scale_ok [OF False] obtain fg fs where
    "AbstractFourierVoxelGrid_from_real_voxel_grid FourierVoxelGrid_init pad fftn FS G vs ps pm flt
       = FourierVoxelGrid_init fg fs vs" by blast
  then show ?thesis using False by (simp add: FourierVoxelGrid_init_def)
qed

lemma fourier_interpolator_failure:
  "(AbstractFourierVoxelGrid_from_real_voxel_grid FourierVoxelGridInterpolator_init pad fftn FS G vs ps pm flt
      = Inl (ValueError m))
     \<longleftrightarrow> (ps < 1 \<and> m = ''pad_scale must be greater than 1.0'')"
proof (cases "ps < 1")
  case True
  then show ?thesis by (auto simp: fourier_pad_scale_small)
next
  case False
  from fourier_pad_scale_ok [OF False] obtain fg fs where
    eq: "AbstractFourierVoxelGrid_from_real_voxel_grid FourierVoxelGridInterpolator_init pad fftn FS G vs ps pm flt
       = FourierVoxelGridInterpolator_init fg fs vs" by blast
  have "FourierVoxelGridInterpolator_init fg fs vs \<noteq> Inl (ValueError m)"
    using interpolator_init_error [of fg fs vs "ValueError m"] by auto
  then show ?thesis using False eq by simp
qed

lemma real_grid_failure:
  assumes "ndim G = 3"
  shows "(RealVoxelGrid_from_real_voxel_grid crop CG G vs cgo cso = Inl e)
     \<longleftrightarrow> (cgo = None \<and> (\<exists>cs. cso = Some cs \<and> 1 < cs) \<and> e = ValueError ''crop_scale must be less than 1.0'')"
proof (cases cgo)
  case (Some cg)
  then show ?thesis by (simp add: RealVoxelGrid_with_coordinate_grid [OF assms])
next
  case None
  show ?thesis
  proof (cases cso)
    case None
    with \<open>cgo = None\<close> show ?thesis by (simp add: RealVoxelGrid_no_crop [OF assms])
  next
    case (Some cs)
    show ?thesis
    proof (cases "1 < cs")
      case True
      with Some \<open>cgo = None\<close> show ?thesis
        by (auto simp: RealVoxelGrid_crop_error [OF assms True])
    next
      case False
      from RealVoxelGrid_crop [OF assms False] obtain obj where
        "RealVoxelGrid_from_real_voxel_grid crop CG G vs None (Some cs) = Inr obj" by blast
      with Some \<open>cgo = None\<close> False show ?thesis by simp
    qed
  qed
qed

text \<open>
  Claim C6, as stated: \<open>from_real_voxel_grid\<close> fails exactly when the grid is not cubic,
  \<open>pad_scale < 1.0\<close> or \<open>crop_scale > 1.0\<close>. A grid of shape \<open>(1, 2, 3)\<close> with
  \<open>crop_scale = 2\<close> and a coordinate grid supplied is accepted by
  \<open>RealVoxelGrid.from_real_voxel_grid\<close>.
\<close>

theorem noncubic_grid_and_large_crop_scale_accepted:
  "shape example_grid = [1, 2, 3] \<and> (1::real) < 2
   \<and> RealVoxelGrid_from_real_voxel_grid example_crop_to_shape example_CoordinateGrid example_grid 1
        (Some example_coordinates) (Some 2)
       = Inr (RealVoxelGrid_init (swap01 example_grid) example_coordinates 1)"
  using RealVoxelGrid_with_coordinate_grid [OF ndim_example_grid,
      of example_crop_to_shape example_CoordinateGrid 1 example_coordinates "Some 2"]
  by (simp add: example_grid_def)

text \<open>
  Claim C6, amended. No constructor checks that the grid is cubic. For a grid with
  three axes: \<open>FourierVoxelGrid.from_real_voxel_grid\<close> fails exactly when
  \<open>pad_scale < 1.0\<close>, with the \<open>ValueError\<close> of that check;
  \<open>FourierVoxelGridInterpolator.from_real_voxel_grid\<close> raises a \<open>ValueError\<close> of its own
  exactly when \<open>pad_scale < 1.0\<close>; \<open>RealVoxelGrid.from_real_voxel_grid\<close> fails exactly
  when no coordinate grid is supplied and a \<open>crop_scale > 1.0\<close> is, with the
  \<open>ValueError\<close> of that check; \<open>RealVoxelCloud.from_real_voxel_grid\<close> does not fail. A
  failure returns the error and no object.
\<close>

theorem from_real_voxel_grid_failures:
  "ndim G = 3 \<Longrightarrow>
   ((AbstractFourierVoxelGrid_from_real_voxel_grid FourierVoxelGrid_init pad fftn FS G vs ps pm flt = Inl e)
      \<longleftrightarrow> (ps < 1 \<and> e = ValueError ''pad_scale must be greater than 1.0''))
   \<and> ((AbstractFourierVoxelGrid_from_real_voxel_grid FourierVoxelGridInterpolator_init pad fftn FS G vs ps pm flt
          = Inl (ValueError m))
      \<longleftrightarrow> (ps < 1 \<and> m = ''pad_scale must be greater than 1.0''))
   \<and> ((RealVoxelGrid_from_real_voxel_grid crop CG G vs cgo cso = Inl e')
      \<longleftrightarrow> (cgo = None \<and> (\<exists>cs. cso = Some cs \<and> 1 < cs)
           \<and> e' = ValueError ''crop_scale must be less than 1.0''))
   \<and> (\<exists>obj. RealVoxelCloud_from_real_voxel_grid CG' CL G vs cgo' rtol atol = Inr obj)"
  by (intro conjI)
     (rule fourier_grid_failure fourier_interpolator_failure real_grid_failure
        | assumption | simp only: RealVoxelCloud_result, blast)+

theorem from_real_voxel_grid_failures_witness:
  "ndim example_grid = 3
   \<and> AbstractFourierVoxelGrid_from_real_voxel_grid FourierVoxelGrid_init example_pad_to_shape
        example_fftn example_FrequencySlice example_grid 1 (1 / 2) ''constant'' None
       = Inl (ValueError ''pad_scale must be greater than 1.0'')
   \<and> RealVoxelGrid_from_real_voxel_grid example_crop_to_shape example_CoordinateGrid example_grid 1
        None (Some 2) = Inl (ValueError ''crop_scale must be less than 1.0'')"
  using from_real_voxel_grid_failures [OF ndim_example_grid, of example_pad_to_shape example_fftn example_FrequencySlice 1
      "1 / 2" "''constant''" None "ValueError ''pad_scale must be greater than 1.0''"
      "''pad_scale must be greater than 1.0''"
      example_crop_to_shape example_CoordinateGrid None "Some 2"
      "ValueError ''crop_scale must be less than 1.0''"
      example_CoordinateGrid example_CoordinateList None 0 0]
    ndim_example_grid
  by simp


section \<open>Failures of \<open>map_coordinates\<close>\<close>

lemma parse_gather_mode_known:
  "mode \<in> {''clip'', ''fill'', ''drop'', ''promise_in_bounds''}
   \<Longrightarrow> \<exists>m. parse_gather_mode mode = Inr m"
  by (auto simp: parse_gather_mode_def)

lemma parse_gather_mode_unknown:
  "mode \<notin> {''clip'', ''fill'', ''drop'', ''promise_in_bounds''}
   \<Longrightarrow> parse_gather_mode mode = Inl (ValueError (unknown_gather_mode_message mode))"
  by (simp add: parse_gather_mode_def)

lemma parse_gather_mode_error:
  "parse_gather_mode mode = Inl e \<Longrightarrow> e = ValueError (unknown_gather_mode_message mode)"
  by (auto simp: parse_gather_mode_def split: if_splits)

lemma messages_differ: "unknown_gather_mode_message s \<noteq> length_mismatch_message a b"
  by (simp add: unknown_gather_mode_message_def length_mismatch_message_def)

lemma cubic_spline_error:
  "cubic_spline input c mode cval = Inl e
   \<Longrightarrow> e = ArrayLibraryError \<or> e = ValueError (unknown_gather_mode_message mode)"
  by (auto simp: cubic_spline_def spline_coefficients_def split: sum.splits
       dest: spline_axes_error parse_gather_mode_error)

lemma cubic_spline_shape:
  assumes "list_all (\<lambda>s. 3 \<le> s) (shape input)" and "parse_gather_mode mode = Inr m"
  shows "map_sum id shape (cubic_spline input c mode cval) = Inr (coords_shape c)"
proof -
  from spline_coefficients_shape [OF assms(1)] obtain r where "spline_coefficients input = Inr r"
    by blast
  then show ?thesis using assms(2) by (simp add: cubic_spline_def)
qed

lemma cubic_spline_unknown_mode:
  assumes "list_all (\<lambda>s. 3 \<le> s) (shape input)" and "parse_gather_mode mode = Inl e"
  shows "cubic_spline input c mode cval = Inl e"
proof -
  from spline_coefficients_shape [OF assms(1)] obtain r where "spline_coefficients input = Inr r"
    by blast
  then show ?thesis using assms(2) by (simp add: cubic_spline_def)
qed

lemma map_coordinates_ValueError:
  "(map_coordinates input c order mode cval
      = Inl (ValueError (length_mismatch_message (length (coords c)) (ndim input))))
     \<longleftrightarrow> length (coords c) \<noteq> ndim input"
proof (cases "length (coords c) = ndim input")
  case False
  then show ?thesis by (simp add: map_coordinates_def)
next
  case True
  let ?msg = "length_mismatch_message (length (coords c)) (ndim input)"
  have cs: "cubic_spline input c mode cval \<noteq> Inl (ValueError ?msg)"
    using cubic_spline_error [of input c mode cval "ValueError ?msg"]
      messages_differ [of mode "length (coords c)" "ndim input"] by auto
  have pg: "parse_gather_mode mode \<noteq> Inl (ValueError ?msg)"
    using parse_gather_mode_error [of mode "ValueError ?msg"]
      messages_differ [of mode "length (coords c)" "ndim input"] by auto
  have "map_coordinates input c order mode cval \<noteq> Inl (ValueError ?msg)"
    using cs pg True by (auto simp: map_coordinates_def split: sum.splits)
  with True show ?thesis by simp
qed

lemma map_coordinates_NotImplementedError:
  "(map_coordinates input c order mode cval = Inl (NotImplementedError m))
     \<longleftrightarrow> (length (coords c) = ndim input \<and> order \<noteq> 0 \<and> order \<noteq> 1 \<and> order \<noteq> 3
          \<and> m = ''map_coordinates requires order = 0, 1, or 3.'')"
proof -
  have cs: "cubic_spline input c mode cval \<noteq> Inl (NotImplementedError m)"
    using cubic_spline_error [of input c mode cval "NotImplementedError m"] by auto
  have pg: "parse_gather_mode mode \<noteq> Inl (NotImplementedError m)"
    using parse_gather_mode_error [of mode "NotImplementedError m"] by auto
  show ?thesis using cs pg by (auto simp: map_coordinates_def split: sum.splits)
qed

lemma map_coordinates_succeeds:
  assumes "length (coords c) = ndim input" and "0 < ndim input"
    and "((order = 0 \<or> order = 1) \<and> list_all (\<lambda>s. 0 < s) (shape input))
         \<or> (order = 3 \<and> list_all (\<lambda>s. 4 \<le> s) (shape input))"
    and "mode \<in> {''clip'', ''fill'', ''drop'', ''promise_in_bounds''}"
  shows "map_sum id shape (map_coordinates input c order mode cval) = Inr (coords_shape c)"
proof -
  from parse_gather_mode_known [OF assms(4)] obtain m where m: "parse_gather_mode mode = Inr m"
    by blast
  from assms(3) show ?thesis
  proof
    assume a: "(order = 0 \<or> order = 1) \<and> list_all (\<lambda>s. 0 < s) (shape input)"
    then have "0 \<notin> set (shape input)" by (auto simp: list_all_iff)
    with a assms(1,2) m show ?thesis by (auto simp: map_coordinates_def)
  next
    assume a: "order = 3 \<and> list_all (\<lambda>s. 4 \<le> s) (shape input)"
    then have "list_all (\<lambda>s. 3 \<le> s) (shape input)" by (auto simp: list_all_iff)
    from cubic_spline_shape [OF this m] a assms(1,2) show ?thesis
      by (simp add: map_coordinates_def)
  qed
qed

lemma map_coordinates_unknown_mode:
  assumes "length (coords c) = ndim input" and "0 < ndim input"
    and "((order = 0 \<or> order = 1) \<and> list_all (\<lambda>s. 0 < s) (shape input))
         \<or> (order = 3 \<and> list_all (\<lambda>s. 4 \<le> s) (shape input))"
    and "mode \<notin> {''clip'', ''fill'', ''drop'', ''promise_in_bounds''}"
  shows "map_coordinates input c order mode cval
           = Inl (ValueError (unknown_gather_mode_message mode))"
proof -
  note m = parse_gather_mode_unknown [OF assms(4)]
  from assms(3) show ?thesis
  proof
    assume a: "(order = 0 \<or> order = 1) \<and> list_all (\<lambda>s. 0 < s) (shape input)"
    then have "0 \<notin> set (shape input)" by (auto simp: list_all_iff)
    with a assms(1,2) m show ?thesis by (auto simp: map_coordinates_def)
  next
    assume a: "order = 3 \<and> list_all (\<lambda>s. 4 \<le> s) (shape input)"
    then have "list_all (\<lambda>s. 3 \<le> s) (shape input)" by (auto simp: list_all_iff)
    from cubic_spline_unknown_mode [OF this m] a assms(1,2) show ?thesis
      by (simp add: map_coordinates_def)
  qed
qed

text \<open>
  Claim C7, as stated: \<open>NotImplementedError\<close> is raised exactly when \<open>order\<close> is not
  0, 1 or 3. With \<open>order = 2\<close> and no coordinate array for a one-dimensional input, the
  length check comes first and the \<open>ValueError\<close> is raised instead, with the message
  \<open>coordinates must be a sequence of length input.ndim, but 0 != 1\<close>.
\<close>

theorem length_check_precedes_order_check:
  "(2::int) \<noteq> 0 \<and> (2::int) \<noteq> 1 \<and> (2::int) \<noteq> 3
   \<and> map_coordinates example_line no_coordinates 2 ''fill'' 0
       = Inl (ValueError ''coordinates must be a sequence of length input.ndim, but 0 != 1'')
   \<and> map_coordinates example_line no_coordinates 2 ''fill'' 0
       \<noteq> Inl (NotImplementedError ''map_coordinates requires order = 0, 1, or 3.'')"
  by (simp add: map_coordinates_def example_line_def no_coordinates_def ndim_def
        length_mismatch_message_def string_of_nat.simps)

text \<open>
  Claim C7, amended. \<open>map_coordinates\<close> raises the \<open>ValueError\<close> of its length check,
  whose message ends with the two lengths, exactly when
  \<open>len(coordinates) != input.ndim\<close>, and its \<open>NotImplementedError\<close> exactly when the
  lengths agree and \<open>order\<close> is not 0, 1 or 3. Let the lengths agree, the input have at
  least one axis, and \<open>order\<close> be 0 or 1 with no axis of extent 0, or be 3 with every
  axis of extent at least 4. Then for \<open>mode\<close> one of \<open>"clip"\<close>, \<open>"fill"\<close>, \<open>"drop"\<close> and
  \<open>"promise_in_bounds"\<close> it returns an array of the shape of the coordinate arrays; and
  for every other \<open>mode\<close> string, \<open>"one_hot"\<close> set aside, and coordinate arrays that are
  not empty, the array library's \<open>ValueError\<close> \<open>Unknown gather mode "<mode>"\<close> is raised.
\<close>

theorem map_coordinates_errors:
  "((map_coordinates input c order mode cval
       = Inl (ValueError (length_mismatch_message (length (coords c)) (ndim input))))
     \<longleftrightarrow> length (coords c) \<noteq> ndim input)
   \<and> ((map_coordinates input c order mode cval = Inl (NotImplementedError m'))
     \<longleftrightarrow> (length (coords c) = ndim input \<and> order \<noteq> 0 \<and> order \<noteq> 1 \<and> order \<noteq> 3
          \<and> m' = ''map_coordinates requires order = 0, 1, or 3.''))
   \<and> (length (coords c) = ndim input \<and> 0 < ndim input
        \<and> (((order = 0 \<or> order = 1) \<and> list_all (\<lambda>s. 0 < s) (shape input))
             \<or> (order = 3 \<and> list_all (\<lambda>s. 4 \<le> s) (shape input)))
      \<longrightarrow> (mode \<in> {''clip'', ''fill'', ''drop'', ''promise_in_bounds''}
             \<longrightarrow> map_sum id shape (map_coordinates input c order mode cval)
                   = Inr (coords_shape c))
          \<and> (mode \<notin> {''clip'', ''fill'', ''drop'', ''promise_in_bounds'', ''one_hot''}
               \<and> 0 \<notin> set (coords_shape c)
             \<longrightarrow> map_coordinates input c order mode cval
                   = Inl (ValueError (unknown_gather_mode_message mode))))"
proof (intro conjI impI)
  show "(map_coordinates input c order mode cval
       = Inl (ValueError (length_mismatch_message (length (coords c)) (ndim input))))
     \<longleftrightarrow> length (coords c) \<noteq> ndim input"
    by (rule map_coordinates_ValueError)
  show "(map_coordinates input c order mode cval = Inl (NotImplementedError m'))
     \<longleftrightarrow> (length (coords c) = ndim input \<and> order \<noteq> 0 \<and> order \<noteq> 1 \<and> order \<noteq> 3
          \<and> m' = ''map_coordinates requires order = 0, 1, or 3.'')"
    by (rule map_coordinates_NotImplementedError)
next
  assume a: "length (coords c) = ndim input \<and> 0 < ndim input
        \<and> (((order = 0 \<or> order = 1) \<and> list_all (\<lambda>s. 0 < s) (shape input))
             \<or> (order = 3 \<and> list_all (\<lambda>s. 4 \<le> s) (shape input)))"
    and k: "mode \<in> {''clip'', ''fill'', ''drop'', ''promise_in_bounds''}"
  from a have a1: "length (coords c) = ndim input" and a2: "0 < ndim input"
    and a3: "((order = 0 \<or> order = 1) \<and> list_all (\<lambda>s. 0 < s) (shape input))
             \<or> (order = 3 \<and> list_all (\<lambda>s. 4 \<le> s) (shape input))"
    by blast+
  show "map_sum id shape (map_coordinates input c order mode cval) = Inr (coords_shape c)"
    by (rule map_coordinates_succeeds [OF a1 a2 a3 k])
next
  assume a: "length (coords c) = ndim input \<and> 0 < ndim input
        \<and> (((order = 0 \<or> order = 1) \<and> list_all (\<lambda>s. 0 < s) (shape input))
             \<or> (order = 3 \<and> list_all (\<lambda>s. 4 \<le> s) (shape input)))"
    and u: "mode \<notin> {''clip'', ''fill'', ''drop'', ''promise_in_bounds'', ''one_hot''}
               \<and> 0 \<notin> set (coords_shape c)"
  from a have a1: "length (coords c) = ndim input" and a2: "0 < ndim input"
    and a3: "((order = 0 \<or> order = 1) \<and> list_all (\<lambda>s. 0 < s) (shape input))
             \<or> (order = 3 \<and> list_all (\<lambda>s. 4 \<le> s) (shape input))"
    by blast+
  from u have u': "mode \<notin> {''clip'', ''fill'', ''drop'', ''promise_in_bounds''}" by blast
  show "map_coordinates input c order mode cval
          = Inl (ValueError (unknown_gather_mode_message mode))"
    by (rule map_coordinates_unknown_mode [OF a1 a2 a3 u'])
qed

theorem map_coordinates_errors_witness:
  "length (coords example_nodes) = ndim example_samples \<and> 0 < ndim example_samples
   \<and> list_all (\<lambda>s. 4 \<le> s) (shape example_samples)
   \<and> 0 \<notin> set (coords_shape example_nodes)
   \<and> map_sum id shape (map_coordinates example_samples example_nodes 3 ''fill'' 0) = Inr [3]
   \<and> map_sum id shape (map_coordinates example_samples example_nodes 1 ''clip'' 0) = Inr [3]
   \<and> map_coordinates example_samples example_nodes 1 ''wrap'' 0
       = Inl (ValueError (''Unknown gather mode '' @ [CHR 0x22] @ ''wrap'' @ [CHR 0x22]))
   \<and> map_coordinates example_samples example_nodes 3 ''wrap'' 0
       = Inl (ValueError (''Unknown gather mode '' @ [CHR 0x22] @ ''wrap'' @ [CHR 0x22]))
   \<and> map_coordinates example_samples example_nodes 2 ''fill'' 0
       = Inl (NotImplementedError ''map_coordinates requires order = 0, 1, or 3.'')
   \<and> map_coordinates example_samples no_coordinates 1 ''fill'' 0
       = Inl (ValueError ''coordinates must be a sequence of length input.ndim, but 0 != 1'')"
  using map_coordinates_errors [of example_samples example_nodes 3 "''fill''" 0 "''x''"]
    map_coordinates_errors [of example_samples example_nodes 1 "''clip''" 0 "''x''"]
    map_coordinates_errors [of example_samples example_nodes 1 "''wrap''" 0 "''x''"]
    map_coordinates_errors [of example_samples example_nodes 3 "''wrap''" 0 "''x''"]
    map_coordinates_errors [of example_samples example_nodes 2 "''fill''" 0
       "''map_coordinates requires order = 0, 1, or 3.''"]
    map_coordinates_errors [of example_samples no_coordinates 1 "''fill''" 0 "''x''"]
  by (simp add: example_samples_def example_nodes_def no_coordinates_def ndim_def
        length_mismatch_message_def unknown_gather_mode_message_def string_of_nat.simps)


section \<open>Atom rasterization as a sum of Gaussians\<close>

lemma sum_list_upt: "sum_list (map f [0..<n]) = (\<Sum>i<n. (f i :: real))"
  by (simp add: interv_sum_list_conv_sum_set_nat atLeast0LessThan)

lemma gaussian_item:
  assumes "shape grid = shp @ [3]"
  shows "item (evaluate_3d_real_space_gaussian grid pos a b) idx
     = a * (4 * pi / b) powr (3 / 2)
         * exp (- pi * (4 * pi / b) * (\<Sum>c<3. (item grid (idx @ [c]) - item pos [c]) ^ 2))"
proof -
  have l: "last (shape grid) = 3" using assms by simp
  have sq: "sum_list (map (\<lambda>c. 4 * pi / b * (item grid (idx @ [c]) - item pos [c]) ^ 2) [0..<3])
      = 4 * pi / b * (\<Sum>c<3. (item grid (idx @ [c]) - item pos [c]) ^ 2)"
    by (simp only: sum_list_upt sum_distrib_left)
  have "item (evaluate_3d_real_space_gaussian grid pos a b) idx
      = exp (- pi * (4 * pi / b * (\<Sum>c<3. (item grid (idx @ [c]) - item pos [c]) ^ 2)))
          * a * (4 * pi / b) powr (3 / 2)"
    unfolding evaluate_3d_real_space_gaussian_def Let_def l
    by (simp only: ndarray.select_convs sq)
  also have "\<dots> = a * (4 * pi / b) powr (3 / 2)
         * exp (- pi * (4 * pi / b) * (\<Sum>c<3. (item grid (idx @ [c]) - item pos [c]) ^ 2))"
    by (simp only: mult.assoc mult.commute mult.left_commute)
  finally show ?thesis .
qed

lemma gaussian_shape:
  "shape (evaluate_3d_real_space_gaussian grid pos a b) = butlast (shape grid)"
  by (simp add: evaluate_3d_real_space_gaussian_def Let_def)

lemma atom_potential_item:
  "shape grid = shp @ [3] \<Longrightarrow> shape atomic_as = [5] \<Longrightarrow>
   item (evaluate_3d_atom_potential grid pos atomic_as atomic_bs) idx
     = (\<Sum>m<5. item atomic_as [m] * (4 * pi / item atomic_bs [m]) powr (3 / 2)
         * exp (- pi * (4 * pi / item atomic_bs [m])
                  * (\<Sum>c<3. (item grid (idx @ [c]) - item pos [c]) ^ 2)))"
  by (simp add: evaluate_3d_atom_potential_def sum_list_upt gaussian_item)

lemma atom_potential_shape:
  "shape (evaluate_3d_atom_potential grid pos atomic_as atomic_bs) = butlast (shape grid)"
  by (simp add: evaluate_3d_atom_potential_def)

lemma fold_add_gaussian:
  "shape (fold (add_gaussian_to_potential ps fa fb grid) xs init) = shape init
   \<and> item (fold (add_gaussian_to_potential ps fa fb grid) xs init) idx
       = item init idx
         + sum_list (map (\<lambda>i. item (evaluate_3d_atom_potential grid (row ps i) (row fa i) (row fb i)) idx) xs)"
  by (induction xs arbitrary: init) (simp_all add: add_gaussian_to_potential_def add_nd_def)

lemma row_item: "item (row a i) idx = item a (i # idx)"
  by (simp add: row_def)

lemma row_shape: "shape a = n # rest \<Longrightarrow> shape (row a i) = rest"
  by (simp add: row_def)

lemma build_eq_fold:
  "0 < N \<Longrightarrow> shape ps = [N, 3] \<Longrightarrow> shape fa = [N, 5] \<Longrightarrow> shape fb = [N, 5] \<Longrightarrow>
   shape grid = [n1, n2, n3, 3] \<Longrightarrow>
   build_real_space_voxels_from_atoms ps fa fb grid
     = Inr (fold (add_gaussian_to_potential ps fa fb grid) [0..<N] (zeros [n1, n2, n3]))"
  by (simp add: build_real_space_voxels_from_atoms_def)

lemma fold_shape:
  "shape (fold (add_gaussian_to_potential ps fa fb grid) [0..<N] (zeros [n1, n2, n3]))
     = [n1, n2, n3]"
  by (simp add: fold_add_gaussian zeros_def)

lemma fold_item_atoms:
  "item (fold (add_gaussian_to_potential ps fa fb grid) [0..<N] (zeros [n1, n2, n3])) idx
     = (\<Sum>n<N. item (evaluate_3d_atom_potential grid (row ps n) (row fa n) (row fb n)) idx)"
  by (simp add: fold_add_gaussian zeros_def sum_list_upt)

lemma fold_item:
  assumes "shape fa = [N, 5]" and "shape grid = [n1, n2, n3, 3]"
  shows "item (fold (add_gaussian_to_potential ps fa fb grid) [0..<N] (zeros [n1, n2, n3])) idx
     = (\<Sum>n<N. \<Sum>m<5. item fa [n, m] * (4 * pi / item fb [n, m]) powr (3 / 2)
         * exp (- pi * (4 * pi / item fb [n, m])
                  * (\<Sum>c<3. (item grid (idx @ [c]) - item ps [n, c]) ^ 2)))"
proof -
  have g: "shape grid = [n1, n2, n3] @ [3]" using assms(2) by simp
  have r: "\<And>n. shape (row fa n) = [5]" using assms(1) by (simp add: row_def)
  show ?thesis
    by (simp only: fold_item_atoms atom_potential_item [OF g r] row_item)
qed

text \<open>
  Claim C8, as stated: the result is the sum over all atoms, by a fold from the zero
  grid. Without atoms (\<open>N = 0\<close>) the sum is the zero grid, but the function raises an
  \<open>IndexError\<close>: the loop traces its body, which indexes the empty leading axis.
\<close>

theorem no_atoms_raise_IndexError:
  "shape no_atoms = [0, 3] \<and> shape no_form_factors = [0, 5]
   \<and> shape example_points = [1, 1, 1, 3]
   \<and> build_real_space_voxels_from_atoms no_atoms no_form_factors no_form_factors example_points
       = Inl IndexError
   \<and> build_real_space_voxels_from_atoms no_atoms no_form_factors no_form_factors example_points
       \<noteq> Inr (fold (add_gaussian_to_potential no_atoms no_form_factors no_form_factors
                      example_points) [0..<0] (zeros [1, 1, 1]))"
  by (simp add: build_real_space_voxels_from_atoms_def no_atoms_def no_form_factors_def
        example_points_def)

text \<open>
  Claim C8, amended. For \<open>N \<ge> 1\<close> atoms with 5 Gaussian terms each and a coordinate grid
  of shape \<open>(n1, n2, n3, 3)\<close>, \<open>build_real_space_voxels_from_atoms\<close> returns the
  sequential fold, from the zero grid, that adds \<open>evaluate_3d_atom_potential\<close> of atom
  \<open>0, ..., N - 1\<close> in turn; its shape is the leading three extents of the coordinate
  grid; its value at a grid point is the sum over the atoms of the atom potential, which
  is the sum over the 5 terms of \<open>a * (4 pi / b) ^ 1.5 * exp(- pi * (4 pi / b) * |x - pos|^2)\<close>.
\<close>

theorem voxels_from_atoms_is_sum_of_gaussians:
  "0 < N \<and> shape atom_positions = [N, 3] \<and> shape ff_a = [N, 5] \<and> shape ff_b = [N, 5]
     \<and> shape grid = [n1, n2, n3, 3] \<Longrightarrow>
   build_real_space_voxels_from_atoms atom_positions ff_a ff_b grid
     = Inr (fold (add_gaussian_to_potential atom_positions ff_a ff_b grid) [0..<N]
              (zeros [n1, n2, n3]))
   \<and> map_sum id shape (build_real_space_voxels_from_atoms atom_positions ff_a ff_b grid)
       = Inr [n1, n2, n3]
   \<and> map_sum id shape (build_real_space_voxels_from_atoms atom_positions ff_a ff_b grid)
       = Inr (take 3 (shape grid))
   \<and> map_sum id (\<lambda>v. item v idx)
         (build_real_space_voxels_from_atoms atom_positions ff_a ff_b grid)
       = Inr (\<Sum>n<N. item (evaluate_3d_atom_potential grid (row atom_positions n) (row ff_a n) (row ff_b n)) idx)
   \<and> item (evaluate_3d_atom_potential grid (row atom_positions n) (row ff_a n) (row ff_b n)) idx
       = (\<Sum>m<5. item ff_a [n, m] * (4 * pi / item ff_b [n, m]) powr (3 / 2)
           * exp (- pi * (4 * pi / item ff_b [n, m])
                    * (\<Sum>c<3. (item grid (idx @ [c]) - item atom_positions [n, c]) ^ 2)))
   \<and> map_sum id (\<lambda>v. item v idx)
         (build_real_space_voxels_from_atoms atom_positions ff_a ff_b grid)
       = Inr (\<Sum>n<N. \<Sum>m<5. item ff_a [n, m] * (4 * pi / item ff_b [n, m]) powr (3 / 2)
           * exp (- pi * (4 * pi / item ff_b [n, m])
                    * (\<Sum>c<3. (item grid (idx @ [c]) - item atom_positions [n, c]) ^ 2)))"
proof -
  assume a: "0 < N \<and> shape atom_positions = [N, 3] \<and> shape ff_a = [N, 5] \<and> shape ff_b = [N, 5]
     \<and> shape grid = [n1, n2, n3, 3]"
  then have n: "0 < N" and ps: "shape atom_positions = [N, 3]" and fa: "shape ff_a = [N, 5]"
    and fb: "shape ff_b = [N, 5]" and gr: "shape grid = [n1, n2, n3, 3]" by simp_all
  have g: "shape grid = [n1, n2, n3] @ [3]" using gr by simp
  have r: "shape (row ff_a n) = [5]" using fa by (simp add: row_def)
  have t: "take 3 (shape grid) = [n1, n2, n3]" using gr by simp
  note b = build_eq_fold [OF n ps fa fb gr]
  have ms: "\<And>f x. map_sum id f (Inr x :: error + real ndarray) = Inr (f x)" by simp
  show ?thesis
    unfolding t b ms
    by (intro conjI)
       (rule refl fold_shape fold_item_atoms fold_item [OF fa gr] arg_cong [where f = Inr]
        | simp only: atom_potential_item [OF g r] row_item)+
qed

theorem voxels_from_atoms_is_sum_of_gaussians_witness:
  "(0::nat) < 1 \<and> shape example_atom_positions = [1, 3] \<and> shape example_form_factors = [1, 5]
   \<and> shape example_points = [1, 1, 1, 3]
   \<and> map_sum id shape (build_real_space_voxels_from_atoms example_atom_positions
         example_form_factors example_form_factors example_points) = Inr [1, 1, 1]"
proof -
  have h: "(0::nat) < 1 \<and> shape example_atom_positions = [1, 3]
     \<and> shape example_form_factors = [1, 5]
     \<and> shape example_form_factors = [1, 5] \<and> shape example_points = [1, 1, 1, 3]"
    by (simp add: example_atom_positions_def example_form_factors_def example_points_def)
  have "map_sum id shape (build_real_space_voxels_from_atoms example_atom_positions
         example_form_factors example_form_factors example_points) = Inr [1, 1, 1]"
    by (rule voxels_from_atoms_is_sum_of_gaussians [OF h, THEN conjunct2, THEN conjunct1])
  with h show ?thesis by blast
qed


section \<open>The spline coefficients along one axis\<close>

lemma hd0_Cons: "hd0 (x # xs) = x"
  by (simp add: hd0_def)

lemma thomas_backsub_Cons:
  "thomas_backsub ((c', d') # rest) = (d' - c' * hd0 (thomas_backsub rest)) # thomas_backsub rest"
  by (simp add: Let_def hd0_def)

lemma thomas_correct:
  assumes "\<forall>(a, b, c, d)\<in>set rows. b = 4 \<and> 0 \<le> a \<and> a \<le> 1 \<and> 0 \<le> c \<and> c \<le> 1"
    and "0 \<le> cp" and "cp < 1"
  shows "tridiagonal_solution (dp - cp * hd0 (thomas_backsub (thomas_forward cp dp rows))) rows
           (thomas_backsub (thomas_forward cp dp rows))"
  using assms
proof (induction rows arbitrary: cp dp)
  case Nil
  then show ?case by simp
next
  case (Cons row rows)
  obtain a b c d where row: "row = (a, b, c, d)" by (cases row) auto
  have abc: "b = 4" "0 \<le> a" "a \<le> 1" "0 \<le> c" "c \<le> 1"
    using Cons.prems(1) row by auto
  define den where "den = b - a * cp"
  have "a * cp \<le> 1 * 1"
    using abc Cons.prems(2,3) by (intro mult_mono) auto
  then have den3: "3 \<le> den" using abc by (simp add: den_def)
  then have den0: "den \<noteq> 0" by simp
  define c' where "c' = c / den"
  define d' where "d' = (d - a * dp) / den"
  have c'0: "0 \<le> c'" using abc den3 by (simp add: c'_def)
  have "c' \<le> 1 / 3"
    unfolding c'_def using abc den3 by (intro frac_le) auto
  then have c'1: "c' < 1" by simp
  define xs where "xs = thomas_backsub (thomas_forward c' d' rows)"
  have fw: "thomas_forward cp dp (row # rows) = (c', d') # thomas_forward c' d' rows"
    by (simp add: row Let_def c'_def d'_def den_def)
  have bs: "thomas_backsub (thomas_forward cp dp (row # rows)) = (d' - c' * hd0 xs) # xs"
    by (simp only: fw thomas_backsub_Cons xs_def)
  define x0 where "x0 = d' - c' * hd0 xs"
  have rest: "\<forall>(a, b, c, d)\<in>set rows. b = 4 \<and> 0 \<le> a \<and> a \<le> 1 \<and> 0 \<le> c \<and> c \<le> 1"
    using Cons.prems(1) by simp
  have IH: "tridiagonal_solution x0 rows xs"
    unfolding x0_def xs_def by (rule Cons.IH [OF rest c'0 c'1])
  have "den * x0 = d - a * dp - c * hd0 xs"
    using den0 by (simp add: x0_def d'_def c'_def field_simps)
  then have eq: "a * (dp - cp * x0) + b * x0 + c * hd0 xs = d"
    by (simp add: den_def algebra_simps)
  have "tridiagonal_solution (dp - cp * x0) ((a, b, c, d) # rows) (x0 # xs)"
    using eq IH by simp
  then show ?case
    by (simp only: row bs [unfolded row] hd0_Cons x0_def [symmetric])
qed

lemma tridiagonal_solution_length:
  "tridiagonal_solution xp rows xs \<Longrightarrow> length xs = length rows"
proof (induction rows arbitrary: xp xs)
  case Nil
  then show ?case by simp
next
  case (Cons row rows)
  obtain a b c d where row: "row = (a, b, c, d)" by (cases row) auto
  from Cons.prems row obtain x xs' where xs: "xs = x # xs'" by (cases xs) auto
  with Cons.prems row have "tridiagonal_solution x rows xs'" by simp
  from Cons.IH [OF this] xs show ?case by simp
qed

lemma tridiagonal_solution_nth:
  "tridiagonal_solution xp rows xs \<Longrightarrow> r < length rows \<Longrightarrow> rows ! r = (a, b, c, d) \<Longrightarrow>
     a * (if r = 0 then xp else xs ! (r - 1)) + b * xs ! r
       + c * (if Suc r < length xs then xs ! Suc r else 0) = d"
proof (induction rows arbitrary: xp xs r)
  case Nil
  then show ?case by simp
next
  case (Cons row rows)
  obtain a' b' c' d' where row: "row = (a', b', c', d')" by (cases row) auto
  from Cons.prems(1) row obtain x xs' where xs: "xs = x # xs'" by (cases xs) auto
  from Cons.prems(1) row xs have here: "a' * xp + b' * x + c' * hd0 xs' = d'"
    and rest: "tridiagonal_solution x rows xs'" by simp_all
  show ?case
  proof (cases r)
    case 0
    with Cons.prems(3) row have "a = a'" "b = b'" "c = c'" "d = d'" by simp_all
    then show ?thesis using here 0 xs by (cases xs') (simp_all add: hd0_def)
  next
    case (Suc r')
    with Cons.prems(2,3) have r': "r' < length rows" "rows ! r' = (a, b, c, d)" by simp_all
    from Cons.IH [OF rest r'] have
      "a * (if r' = 0 then x else xs' ! (r' - 1)) + b * xs' ! r'
         + c * (if Suc r' < length xs' then xs' ! Suc r' else 0) = d" .
    moreover have "(x # xs') ! (Suc r' - 1) = (if r' = 0 then x else xs' ! (r' - 1))"
      by (cases r') simp_all
    ultimately show ?thesis using Suc xs by (auto split: if_splits)
  qed
qed

lemma length_spline_rows: "length y = m \<Longrightarrow> 0 < m \<Longrightarrow> length (spline_rows m y) = m"
  by (simp add: spline_rows_def)

lemma spline_rows_nth:
  assumes "length y = m" and "r < m"
  shows "spline_rows m y ! r = ((if r = 0 then 0 else 1), 4, (if r < m - 1 then 1 else 0), y ! r)"
proof -
  have a: "(0 # replicate (m - 1) (1::real)) ! r = (if r = 0 then 0 else 1)"
    using assms(2) by (cases r) simp_all
  have c: "(replicate (m - 1) (1::real) @ [0]) ! r = (if r < m - 1 then 1 else 0)"
    using assms(2) by (simp add: nth_append)
  show ?thesis
    unfolding spline_rows_def using assms a c by simp
qed

lemma spline_rows_bounds:
  assumes "length y = m" and "0 < m"
  shows "\<forall>(a, b, c, d)\<in>set (spline_rows m y). b = 4 \<and> 0 \<le> a \<and> a \<le> 1 \<and> 0 \<le> c \<and> c \<le> 1"
proof
  fix row assume "row \<in> set (spline_rows m y)"
  then obtain r where r: "r < length (spline_rows m y)" "row = spline_rows m y ! r"
    by (auto simp: in_set_conv_nth)
  then have "r < m" using length_spline_rows [OF assms] by simp
  from spline_rows_nth [OF assms(1) this] r(2)
  show "case row of (a, b, c, d) \<Rightarrow> b = 4 \<and> 0 \<le> a \<and> a \<le> 1 \<and> 0 \<le> c \<and> c \<le> 1"
    by simp
qed

lemma linear_solve_spline_rows:
  "3 \<le> n \<Longrightarrow> linear_solve (spline_operator n) y
     = thomas_backsub (thomas_forward 0 0 (spline_rows (n - 2) y))"
proof -
  assume "3 \<le> n"
  then have "n - 3 = n - 2 - 1" by simp
  then show ?thesis
    by (simp add: linear_solve_def spline_operator_def spline_rows_def)
qed

lemma spline_system:
  fixes y :: "real list"
  assumes "3 \<le> n" and "length y = n - 2" and "r < n - 2"
  shows "(if r = 0 then 0 else linear_solve (spline_operator n) y ! (r - 1))
           + 4 * linear_solve (spline_operator n) y ! r
           + (if Suc r < n - 2 then linear_solve (spline_operator n) y ! Suc r else 0) = y ! r"
proof -
  let ?m = "n - 2"
  let ?cs = "linear_solve (spline_operator n) y"
  have m: "0 < ?m" using assms(1) by simp
  have cs: "?cs = thomas_backsub (thomas_forward 0 0 (spline_rows ?m y))"
    by (rule linear_solve_spline_rows [OF assms(1)])
  have "tridiagonal_solution (0 - 0 * hd0 ?cs) (spline_rows ?m y) ?cs"
    unfolding cs
    by (rule thomas_correct [OF spline_rows_bounds [OF assms(2) m]]) simp_all
  then have sol: "tridiagonal_solution 0 (spline_rows ?m y) ?cs" by simp
  have len: "length ?cs = ?m"
    using tridiagonal_solution_length [OF sol] length_spline_rows [OF assms(2) m] by simp
  have r: "r < length (spline_rows ?m y)"
    using assms(3) length_spline_rows [OF assms(2) m] by simp
  from tridiagonal_solution_nth [OF sol r spline_rows_nth [OF assms(2,3)]]
  show ?thesis using len assms(3) by (auto split: if_splits)
qed

lemma construct_vector_nth:
  fixes data :: "real list"
  assumes "4 \<le> length data"
  shows "construct_vector data c2 cnp2 ! 0 = data ! 1 - c2"
    and "construct_vector data c2 cnp2 ! (length data - 3) = data ! (length data - 2) - cnp2"
    and "0 < r \<Longrightarrow> r < length data - 3 \<Longrightarrow> construct_vector data c2 cnp2 ! r = data ! Suc r"
proof -
  let ?y = "butlast (tl data)"
  have len: "length ?y = length data - 2" by simp
  have cv: "construct_vector data c2 cnp2
      = ?y[0 := data ! 1 - c2, length data - 3 := data ! (length data - 2) - cnp2]"
    using assms by (simp add: construct_vector_def Let_def numeral_3_eq_3)
  show "construct_vector data c2 cnp2 ! 0 = data ! 1 - c2"
    unfolding cv using assms by simp
  show "construct_vector data c2 cnp2 ! (length data - 3) = data ! (length data - 2) - cnp2"
    unfolding cv using assms by simp
  show "construct_vector data c2 cnp2 ! r = data ! Suc r" if "0 < r" "r < length data - 3"
  proof -
    have "?y ! r = data ! Suc r"
      using that by (simp add: nth_butlast nth_tl)
    then show ?thesis unfolding cv using that by simp
  qed
qed

lemma solve_coefficients_nodes:
  fixes data :: "real list"
  assumes "4 \<le> length data" and "j < length data"
  shows "solve_coefficients data (spline_operator (length data)) ! j
           + 4 * solve_coefficients data (spline_operator (length data)) ! Suc j
           + solve_coefficients data (spline_operator (length data)) ! Suc (Suc j) = data ! j"
proof -
  define n where "n = length data"
  define m where "m = n - 2"
  define c2 where "c2 = 1 / 6 * data ! 0"
  define cnp2 where "cnp2 = 1 / 6 * data ! (n - 1)"
  define y where "y = construct_vector data c2 cnp2"
  define cs where "cs = linear_solve (spline_operator n) y"
  define C where "C = [2 * c2 - cs ! 0, c2] @ cs @ [cnp2, 2 * cnp2 - cs ! (m - 1)]"
  have n4: "4 \<le> n" "j < n" using assms by (simp_all add: n_def)
  have n3: "3 \<le> n" using n4 by simp
  have leny: "length y = n - 2" by (simp add: y_def length_construct_vector n_def)
  have lencs: "length cs = m"
    unfolding cs_def m_def by (rule length_linear_solve_spline [OF n3 leny])
  have CC: "solve_coefficients data (spline_operator n) = C"
    unfolding solve_coefficients_def Let_def
    unfolding n_def [symmetric]
    unfolding c2_def [symmetric] cnp2_def [symmetric]
    unfolding y_def [symmetric]
    unfolding cs_def [symmetric]
    by (simp only: C_def lencs)
  obtain m' where m': "m = Suc (Suc m')"
    using n4 by (cases m; cases "m - 1") (simp_all add: m_def)
  have mn: "n = Suc (Suc m)" using n4 by (simp add: m_def)
  have C0: "C ! 0 = 2 * c2 - cs ! 0" and C1: "C ! Suc 0 = c2" by (simp_all add: C_def)
  have Cmid: "C ! Suc (Suc r) = cs ! r" if "r < m" for r
    using that lencs by (simp add: C_def nth_append)
  have Cn: "C ! Suc (Suc m) = cnp2"
    and Cn1: "C ! Suc (Suc (Suc m)) = 2 * cnp2 - cs ! Suc m'"
    using lencs m' by (simp_all add: C_def nth_append)
  have sys: "(if r = 0 then 0 else cs ! (r - 1)) + 4 * cs ! r
               + (if Suc r < m then cs ! Suc r else 0) = y ! r" if "r < m" for r
    unfolding cs_def m_def by (rule spline_system [OF n3 leny]) (use that m_def in simp)
  have idx: "Suc m' = length data - 3" "m = length data - 2" "Suc m = n - 1"
    using mn m' by (simp_all add: n_def)
  have y0: "y ! 0 = data ! Suc 0 - c2"
    unfolding y_def using construct_vector_nth(1) [OF assms(1)] by simp
  have ylast: "y ! Suc m' = data ! m - cnp2"
    unfolding y_def idx by (rule construct_vector_nth(2) [OF assms(1)])
  have ymid: "y ! r = data ! Suc r" if "0 < r" "r < Suc m'" for r
    unfolding y_def
    by (rule construct_vector_nth(3) [OF assms(1) that(1)]) (use that(2) idx in simp)
  consider "j = 0" | "j = Suc 0" | r where "j = Suc (Suc r)" "r < m'"
    | "j = m" | "j = Suc m"
  proof -
    have "j = 0 \<or> j = Suc 0 \<or> (\<exists>r. j = Suc (Suc r) \<and> r < m') \<or> j = m \<or> j = Suc m"
      using n4(2) mn m' by (cases j; cases "j - 1") auto
    then show ?thesis using that by blast
  qed
  then have "C ! j + 4 * C ! Suc j + C ! Suc (Suc j) = data ! j"
  proof cases
    case 1
    have "C ! Suc (Suc 0) = cs ! 0" using Cmid [of 0] m' by simp
    then show ?thesis using 1 C0 C1 by (simp add: c2_def)
  next
    case 2
    have a: "C ! Suc (Suc 0) = cs ! 0" using Cmid [of 0] m' by simp
    have b: "C ! Suc (Suc (Suc 0)) = cs ! Suc 0" using Cmid [of "Suc 0"] m' by simp
    have "4 * cs ! 0 + cs ! Suc 0 = y ! 0" using sys [of 0] m' by simp
    then show ?thesis using 2 a b C1 y0 by simp
  next
    case 3
    have a: "C ! j = cs ! r" using Cmid [of r] 3 m' by simp
    have b: "C ! Suc j = cs ! Suc r" using Cmid [of "Suc r"] 3 m' by simp
    have c: "C ! Suc (Suc j) = cs ! Suc (Suc r)" using Cmid [of "Suc (Suc r)"] 3 m' by simp
    have "cs ! r + 4 * cs ! Suc r + cs ! Suc (Suc r) = y ! Suc r"
      using sys [of "Suc r"] 3 m' by simp
    moreover have "y ! Suc r = data ! j" using ymid [of "Suc r"] 3 by simp
    ultimately show ?thesis using a b c by simp
  next
    case 4
    have a: "C ! m = cs ! m'" using Cmid [of m'] m' by simp
    have b: "C ! Suc m = cs ! Suc m'" using Cmid [of "Suc m'"] m' by simp
    have "cs ! m' + 4 * cs ! Suc m' = y ! Suc m'" using sys [of "Suc m'"] m' by simp
    then show ?thesis using a b Cn ylast 4 by simp
  next
    case 5
    have a: "C ! Suc m = cs ! Suc m'" using Cmid [of "Suc m'"] m' by simp
    show ?thesis using a Cn Cn1 5 idx(3) by (simp add: cnp2_def)
  qed
  then show ?thesis by (simp only: CC [unfolded n_def])
qed


section \<open>Interpolation at the grid nodes\<close>

subsection \<open>Sums over the interpolation nodes\<close>

lemma sum_list_map_concat:
  "sum_list (map f (concat xss)) = sum_list (map (\<lambda>xs. sum_list (map f xs)) xss)"
  by (induction xss) simp_all

lemma product_sum_nest:
  "sum_list (map (\<lambda>items. prod_list (map snd items) * G (map fst items)) (List.product_lists nss))
     = weighted_nest nss G"
proof (induction nss arbitrary: G)
  case Nil
  then show ?case by simp
next
  case (Cons ns nss)
  have inner: "sum_list (map (\<lambda>items. snd n * prod_list (map snd items) * G (fst n # map fst items))
                  (List.product_lists nss))
      = snd n * weighted_nest nss (\<lambda>rest. G (fst n # rest))" for n
  proof -
    have "sum_list (map (\<lambda>items. snd n * prod_list (map snd items) * G (fst n # map fst items))
                  (List.product_lists nss))
        = sum_list (map (\<lambda>items. snd n * (prod_list (map snd items) * G (fst n # map fst items)))
                  (List.product_lists nss))"
      by (simp only: mult.assoc)
    also have "\<dots> = snd n * sum_list (map (\<lambda>items. prod_list (map snd items) * G (fst n # map fst items))
                  (List.product_lists nss))"
      by (rule sum_list_const_mult)
    also have "\<dots> = snd n * weighted_nest nss (\<lambda>rest. G (fst n # rest))"
      using Cons.IH [of "\<lambda>rest. G (fst n # rest)"] by simp
    finally show ?thesis .
  qed
  show ?case
    by (simp add: sum_list_map_concat comp_def inner split_def)
qed

lemma index_sum_nest:
  "sum_list (map (\<lambda>index. G index * prod_list (map2 W xs index))
       (List.product_lists (map N xs)))
     = weighted_nest (map (\<lambda>x. map (\<lambda>i. (i, W x i)) (N x)) xs) G"
proof (induction xs arbitrary: G)
  case Nil
  then show ?case by simp
next
  case (Cons x xs)
  have inner: "sum_list (map (\<lambda>index. G (i # index) * (W x i * prod_list (map2 W xs index)))
                  (List.product_lists (map N xs)))
      = W x i * weighted_nest (map (\<lambda>x. map (\<lambda>i. (i, W x i)) (N x)) xs) (\<lambda>rest. G (i # rest))" for i
  proof -
    have "sum_list (map (\<lambda>index. G (i # index) * (W x i * prod_list (map2 W xs index)))
                  (List.product_lists (map N xs)))
        = sum_list (map (\<lambda>index. W x i * (G (i # index) * prod_list (map2 W xs index)))
                  (List.product_lists (map N xs)))"
      by (simp only: mult.left_commute)
    also have "\<dots> = W x i * sum_list (map (\<lambda>index. G (i # index) * prod_list (map2 W xs index))
                  (List.product_lists (map N xs)))"
      by (rule sum_list_const_mult)
    also have "\<dots> = W x i * weighted_nest (map (\<lambda>x. map (\<lambda>i. (i, W x i)) (N x)) xs) (\<lambda>rest. G (i # rest))"
      using Cons.IH [of "\<lambda>rest. G (i # rest)"] by simp
    finally show ?thesis .
  qed
  show ?case
    by (simp add: sum_list_map_concat comp_def inner)
qed

lemma weighted_nest_add:
  "weighted_nest nss (\<lambda>r. F r + H r) = weighted_nest nss F + weighted_nest nss H"
proof (induction nss arbitrary: F H)
  case Nil
  then show ?case by simp
next
  case (Cons ns nss)
  have "sum_list (map (\<lambda>(i, w). w * (A i + B i)) ns)
      = sum_list (map (\<lambda>(i, w). w * A i) ns) + sum_list (map (\<lambda>(i, w). w * B i) ns)"
    for A B :: "'a \<Rightarrow> real"
    by (induction ns) (auto simp: algebra_simps)
  then show ?case by (simp add: Cons.IH)
qed

lemma weighted_nest_scale:
  "weighted_nest nss (\<lambda>r. c * F r) = c * weighted_nest nss F"
proof (induction nss arbitrary: F)
  case Nil
  then show ?case by simp
next
  case (Cons ns nss)
  have "sum_list (map (\<lambda>(i, w). w * (c * A i)) ns) = c * sum_list (map (\<lambda>(i, w). w * A i) ns)"
    for A :: "'a \<Rightarrow> real"
    by (induction ns) (auto simp: algebra_simps)
  then show ?case by (simp add: Cons.IH)
qed

lemma weighted_nest_unit: "weighted_nest (map (\<lambda>i. [(i, 1)]) is) G = G is"
  by (induction "is" arbitrary: G) simp_all

subsection \<open>Orders 0 and 1\<close>

lemma gather_in_range:
  assumes "length idx = ndim a" and "\<forall>k<ndim a. idx ! k < shape a ! k"
  shows "gather a mode cval (map int idx) = item a idx"
proof -
  have len: "length idx = length (shape a)" using assms(1) by (simp add: ndim_def)
  have js: "map2 normalize_index (map int idx) (shape a) = map int idx"
    using len by (intro nth_equalityI) (simp_all add: normalize_index_def)
  have ok: "list_all (\<lambda>(j, n). 0 \<le> j \<and> j < int n) (zip (map int idx) (shape a))"
    using assms(2) len by (simp add: list_all_length ndim_def)
  have clip: "map2 (\<lambda>j n. nat (max 0 (min (int n - 1) j))) (map int idx) (shape a) = idx"
  proof (intro nth_equalityI)
    show "length (map2 (\<lambda>j n. nat (max 0 (min (int n - 1) j))) (map int idx) (shape a)) = length idx"
      using len by simp
    fix k assume "k < length (map2 (\<lambda>j n. nat (max 0 (min (int n - 1) j))) (map int idx) (shape a))"
    then have k: "k < length idx" using len by simp
    then have "idx ! k < shape a ! k" using assms by simp
    then show "map2 (\<lambda>j n. nat (max 0 (min (int n - 1) j))) (map int idx) (shape a) ! k = idx ! k"
      using k len by simp
  qed
  have natint: "map nat (map int idx) = idx"
    by (simp add: comp_def)
  show ?thesis
    by (cases mode) (simp_all only: gather_def Let_def js ok clip natint gather_mode.case if_True)
qed

lemma sum_list_nonzero_weights:
  assumes "\<forall>(i, w)\<in>set ns. w \<noteq> 0 \<longrightarrow> F i = F' (nat i)"
  shows "sum_list (map (\<lambda>(i, w). w * F i) ns)
       = sum_list (map (\<lambda>(j, w). w * F' j) (map (\<lambda>(i, w). (nat i, w)) (filter (\<lambda>(i, w). w \<noteq> (0::real)) ns)))"
  using assms by (induction ns) auto

lemma weighted_nest_gather:
  assumes "length pre + length nss = ndim a"
    and "\<forall>k<length pre. pre ! k < shape a ! k"
    and "\<forall>k<length nss. \<forall>(i, w)\<in>set (nss ! k). w \<noteq> 0 \<longrightarrow> 0 \<le> i \<and> nat i < shape a ! (length pre + k)"
  shows "weighted_nest nss (\<lambda>rest. gather a mode cval (map int pre @ rest))
       = weighted_nest (map (\<lambda>ns. map (\<lambda>(i, w). (nat i, w)) (filter (\<lambda>(i, w). w \<noteq> 0) ns)) nss)
           (\<lambda>rest. item a (pre @ rest))"
  using assms
proof (induction nss arbitrary: pre)
  case Nil
  then show ?case by (simp add: gather_in_range)
next
  case (Cons ns nss)
  let ?nss' = "map (\<lambda>ns. map (\<lambda>(i, w). (nat i, w)) (filter (\<lambda>(i, w). w \<noteq> 0) ns)) nss"
  have step: "\<forall>(i, w)\<in>set ns. w \<noteq> 0 \<longrightarrow>
      weighted_nest nss (\<lambda>rest. gather a mode cval (map int pre @ i # rest))
        = weighted_nest ?nss' (\<lambda>rest. item a (pre @ nat i # rest))"
  proof (intro ballI, clarify)
    fix i w assume iw: "(i, w) \<in> set ns" "w \<noteq> 0"
    from Cons.prems(3) [rule_format, of 0] iw have i: "0 \<le> i" "nat i < shape a ! length pre"
      by auto
    have a1: "length (pre @ [nat i]) + length nss = ndim a" using Cons.prems(1) by simp
    have a2: "\<forall>k<length (pre @ [nat i]). (pre @ [nat i]) ! k < shape a ! k"
      using Cons.prems(2) i(2) by (auto simp: nth_append less_Suc_eq)
    have a3: "\<forall>k<length nss. \<forall>(j, w)\<in>set (nss ! k). w \<noteq> 0 \<longrightarrow>
        0 \<le> j \<and> nat j < shape a ! (length (pre @ [nat i]) + k)"
    proof (intro allI impI)
      fix k assume "k < length nss"
      then have "Suc k < length (ns # nss)" by simp
      from Cons.prems(3) [rule_format, OF this]
      show "\<forall>(j, w)\<in>set (nss ! k). w \<noteq> 0 \<longrightarrow> 0 \<le> j \<and> nat j < shape a ! (length (pre @ [nat i]) + k)"
        by simp
    qed
    from Cons.IH [OF a1 a2 a3] i(1)
    show "weighted_nest nss (\<lambda>rest. gather a mode cval (map int pre @ i # rest))
        = weighted_nest ?nss' (\<lambda>rest. item a (pre @ nat i # rest))"
      by simp
  qed
  show ?case
    using sum_list_nonzero_weights [OF step] by simp
qed

lemma foldl_add_sum_list: "foldl (+) (a::real) xs = a + sum_list xs"
  by (induction xs arbitrary: a) simp_all

lemma foldl_mult_prod_list: "foldl (*) (a::real) xs = a * prod_list xs"
  by (induction xs arbitrary: a) simp_all

lemma nonempty_sum_eq: "ys \<noteq> [] \<Longrightarrow> nonempty_sum ys = sum_list ys"
  by (cases ys) (simp_all add: nonempty_sum_def foldl_add_sum_list)

lemma nonempty_prod_eq: "ys \<noteq> [] \<Longrightarrow> nonempty_prod ys = prod_list ys"
  by (cases ys) (simp_all add: nonempty_prod_def foldl_mult_prod_list)

lemma product_lists_nonempty: "\<forall>ns\<in>set nss. ns \<noteq> [] \<Longrightarrow> List.product_lists nss \<noteq> []"
  by (induction nss) (auto simp: neq_Nil_conv)

lemma interpolate_point_nest:
  assumes "xs \<noteq> []" and "\<forall>x\<in>set xs. f x \<noteq> []"
  shows "interpolate_point f a xs mode cval = weighted_nest (map f xs) (gather a mode cval)"
proof -
  let ?PL = "List.product_lists (map f xs)"
  have ne: "?PL \<noteq> []" using assms(2) by (intro product_lists_nonempty) auto
  have items: "nonempty_prod (map snd items) = prod_list (map snd items)" if "items \<in> set ?PL" for items
  proof -
    have "length items = length (map f xs)" using that by (rule in_set_product_lists_length)
    then have "items \<noteq> []" using assms(1) by auto
    then show ?thesis by (simp add: nonempty_prod_eq)
  qed
  have "interpolate_point f a xs mode cval
      = sum_list (map (\<lambda>items. nonempty_prod (map snd items) * gather a mode cval (map fst items)) ?PL)"
    using ne by (simp add: interpolate_point_def Let_def nonempty_sum_eq)
  also have "\<dots> = sum_list (map (\<lambda>items. prod_list (map snd items) * gather a mode cval (map fst items)) ?PL)"
    by (rule arg_cong [where f = sum_list], rule map_cong) (simp_all add: items)
  also have "\<dots> = weighted_nest (map f xs) (gather a mode cval)"
    by (rule product_sum_nest)
  finally show ?thesis .
qed

lemma nearest_at_node: "nearest_indices_and_weights (real i) = [(int i, 1)]"
proof -
  have "\<lfloor>real i + 1 / 2\<rfloor> = int i" by (simp add: floor_eq_iff)
  then show ?thesis by (simp add: nearest_indices_and_weights_def round_half_away_from_zero_def)
qed

lemma linear_at_node: "linear_indices_and_weights (real i) = [(int i, 1), (int i + 1, 0)]"
  by (simp add: linear_indices_and_weights_def Let_def)

lemma interpolate_point_at_node:
  assumes "idx \<noteq> []" and "length idx = ndim a" and "\<forall>k<ndim a. idx ! k < shape a ! k"
    and "f = nearest_indices_and_weights \<or> f = linear_indices_and_weights"
  shows "interpolate_point f a (map real idx) mode cval = item a idx"
proof -
  have ne: "\<forall>x\<in>set (map real idx). f x \<noteq> []"
    using assms(4) by (auto simp: nearest_at_node linear_at_node)
  have filt: "map (\<lambda>ns. map (\<lambda>(i, w). (nat i, w)) (filter (\<lambda>(i, w). w \<noteq> 0) ns)) (map f (map real idx))
      = map (\<lambda>i. [(i, 1)]) idx"
    using assms(4) by (auto simp: nearest_at_node linear_at_node)
  have rng: "\<forall>k<length (map f (map real idx)). \<forall>(i, w)\<in>set (map f (map real idx) ! k).
      w \<noteq> 0 \<longrightarrow> 0 \<le> i \<and> nat i < shape a ! (length ([]::nat list) + k)"
    using assms(2,3,4) by (auto simp: nearest_at_node linear_at_node)
  have "interpolate_point f a (map real idx) mode cval
      = weighted_nest (map f (map real idx)) (gather a mode cval)"
    using assms(1) by (intro interpolate_point_nest ne) simp
  also have "\<dots> = weighted_nest (map (\<lambda>i. [(i, 1)]) idx) (\<lambda>rest. item a rest)"
  proof -
    have "weighted_nest (map f (map real idx)) (\<lambda>rest. gather a mode cval (map int [] @ rest))
        = weighted_nest (map (\<lambda>ns. map (\<lambda>(i, w). (nat i, w)) (filter (\<lambda>(i, w). w \<noteq> 0) ns))
            (map f (map real idx))) (\<lambda>rest. item a ([] @ rest))"
      by (rule weighted_nest_gather [OF _ _ rng]) (use assms(2) in simp_all)
    then show ?thesis unfolding filt by simp
  qed
  also have "\<dots> = item a idx" by (simp add: weighted_nest_unit)
  finally show ?thesis .
qed

subsection \<open>Order 3\<close>

lemma spline_axes_snoc:
  "spline_axes (axes @ [ax]) d =
     (case spline_axes axes d of Inl e \<Rightarrow> Inl e | Inr r \<Rightarrow> spline_axes [ax] r)"
  by (induction axes arbitrary: d) (auto split: sum.splits)

lemma along_axis_nodes:
  fixes A :: "real ndarray"
  assumes "4 \<le> shape A ! k" and "i < shape A ! k" and "length p = k"
  shows "item (along_axis k (\<lambda>x. solve_coefficients x (spline_operator (shape A ! k))) A) (p @ i # r)
       + 4 * item (along_axis k (\<lambda>x. solve_coefficients x (spline_operator (shape A ! k))) A) (p @ Suc i # r)
       + item (along_axis k (\<lambda>x. solve_coefficients x (spline_operator (shape A ! k))) A) (p @ Suc (Suc i) # r)
       = item A (p @ i # r)"
proof -
  define L where "L = map (\<lambda>j. item A (p @ j # r)) [0..<shape A ! k]"
  have upd: "(p @ x # r)[k := j] = p @ j # r" for x j
    unfolding assms(3) [symmetric] by (rule list_update_length)
  have line: "line_through A k (p @ x # r) = L" for x
    by (simp add: line_through_def L_def upd)
  have at: "(p @ x # r) ! k = x" for x
    using assms(3) by (simp add: nth_append)
  have itm: "item (along_axis k (\<lambda>x. solve_coefficients x (spline_operator (shape A ! k))) A) (p @ x # r)
      = solve_coefficients L (spline_operator (shape A ! k)) ! x" for x
    by (simp add: along_axis_def line at)
  have len: "length L = shape A ! k" by (simp add: L_def)
  have Li: "L ! i = item A (p @ i # r)" using assms(2) by (simp add: L_def)
  from solve_coefficients_nodes [of L i] assms(1,2) len Li
  show ?thesis by (simp add: itm)
qed

lemma weighted_nest_spline_nodes:
  "weighted_nest (spline_nodes i # nss) G
     = weighted_nest nss (\<lambda>r. G (i # r) + 4 * G (Suc i # r) + G (Suc (Suc i) # r))"
proof -
  have "weighted_nest nss (\<lambda>r. G (i # r) + 4 * G (Suc i # r) + G (Suc (Suc i) # r))
      = weighted_nest nss (\<lambda>r. G (i # r)) + 4 * weighted_nest nss (\<lambda>r. G (Suc i # r))
          + weighted_nest nss (\<lambda>r. G (Suc (Suc i) # r))"
    by (simp only: weighted_nest_add weighted_nest_scale)
  then show ?thesis by (simp add: spline_nodes_def)
qed

lemma spline_nest_collapse:
  fixes a :: "real ndarray"
  assumes "length idx = ndim a"
    and "\<forall>j<ndim a. idx ! j < shape a ! j \<and> 4 \<le> shape a ! j"
    and "k \<le> ndim a"
    and "spline_axes (rev [k..<ndim a]) a = Inr Ck"
  shows "weighted_nest (map spline_nodes (drop k idx)) (\<lambda>rest. item Ck (take k idx @ rest)) = item a idx"
  using assms(3,4)
proof (induction "ndim a - k" arbitrary: k Ck)
  case 0
  then have "k = ndim a" by simp
  with 0 assms(1) show ?case by simp
next
  case (Suc d)
  then have k: "k < ndim a" by simp
  let ?axes = "rev [Suc k..<ndim a]"
  let ?n = "shape a ! k"
  have split: "rev [k..<ndim a] = ?axes @ [k]"
    using k by (simp add: upt_conv_Cons)
  have ok: "\<forall>ax\<in>set ?axes. ax < ndim a \<and> 3 \<le> shape a ! ax"
    using assms(2) by auto
  from spline_axes_shape [OF _ ok] obtain C' where
    C': "spline_axes ?axes a = Inr C'" "length (shape C') = ndim a"
        "\<forall>i<ndim a. shape C' ! i = (if i \<in> set ?axes then shape a ! i + 2 else shape a ! i)"
    by auto
  have shk: "shape C' ! k = ?n" using C'(3) k by simp
  have n4: "4 \<le> ?n" "idx ! k < ?n" using assms(2) k by simp_all
  have n3: "3 \<le> ?n" using n4 by simp
  have Ck: "Ck = along_axis k (\<lambda>x. solve_coefficients x (spline_operator (shape C' ! k))) C'"
    using Suc.prems(2) unfolding split spline_axes_snoc C'(1)
    by (simp add: shk build_operator_ok [OF n3])
  have kl: "k < length idx" using k assms(1) by simp
  have dr: "drop k idx = idx ! k # drop (Suc k) idx"
    using kl by (simp add: Cons_nth_drop_Suc)
  have tk: "take (Suc k) idx = take k idx @ [idx ! k]"
    using kl by (simp add: take_Suc_conv_app_nth)
  have lp: "length (take k idx) = k" using kl by simp
  have pointwise: "(\<lambda>r. item Ck (take k idx @ idx ! k # r) + 4 * item Ck (take k idx @ Suc (idx ! k) # r)
        + item Ck (take k idx @ Suc (Suc (idx ! k)) # r))
      = (\<lambda>r. item C' (take (Suc k) idx @ r))"
  proof
    fix r
    show "item Ck (take k idx @ idx ! k # r) + 4 * item Ck (take k idx @ Suc (idx ! k) # r)
        + item Ck (take k idx @ Suc (Suc (idx ! k)) # r) = item C' (take (Suc k) idx @ r)"
      unfolding Ck tk
      using along_axis_nodes [of C' k "idx ! k" "take k idx" r] n4 lp shk by simp
  qed
  have IH: "weighted_nest (map spline_nodes (drop (Suc k) idx)) (\<lambda>rest. item C' (take (Suc k) idx @ rest))
      = item a idx"
  proof (rule Suc.hyps(1))
    show "d = ndim a - Suc k" using Suc.hyps(2) by simp
    show "Suc k \<le> ndim a" using k by simp
    show "spline_axes (rev [Suc k..<ndim a]) a = Inr C'" by (rule C'(1))
  qed
  have "weighted_nest (map spline_nodes (drop k idx)) (\<lambda>rest. item Ck (take k idx @ rest))
      = weighted_nest (map spline_nodes (drop (Suc k) idx))
          (\<lambda>r. item Ck (take k idx @ idx ! k # r) + 4 * item Ck (take k idx @ Suc (idx ! k) # r)
        + item Ck (take k idx @ Suc (Suc (idx ! k)) # r))"
    unfolding dr list.map by (rule weighted_nest_spline_nodes)
  also have "\<dots> = weighted_nest (map spline_nodes (drop (Suc k) idx)) (\<lambda>r. item C' (take (Suc k) idx @ r))"
    by (simp only: pointwise)
  also have "\<dots> = item a idx" by (rule IH)
  finally show ?case .
qed

lemma spline_basis_values:
  "spline_basis 1 = 1" "spline_basis 0 = 4" "spline_basis (- 1) = 1" "spline_basis (- 2) = 0"
  by (simp_all add: spline_basis_def Let_def)

lemma spline_point_nest:
  "spline_point C xs mode cval
     = weighted_nest
         (map (\<lambda>x. map (\<lambda>i. (i, spline_basis (x - of_int i + 1))) (map (\<lambda>k. k + \<lfloor>x\<rfloor>) [0, 1, 2, 3])) xs)
         (gather C mode cval)"
  unfolding spline_point_def spline_value_def Let_def
  by (rule index_sum_nest)

lemma spline_pairs_at_node:
  "map (\<lambda>j. (j, spline_basis (real i - of_int j + 1))) (map (\<lambda>k. k + \<lfloor>real i\<rfloor>) [0, 1, 2, 3])
     = [(int i, 1), (int i + 1, 4), (int i + 2, 1), (int i + 3, 0)]"
  by (simp add: spline_basis_values add.commute)

lemma spline_point_at_node:
  assumes "length idx = ndim C" and "\<forall>k<ndim C. idx ! k + 2 < shape C ! k"
  shows "spline_point C (map real idx) mode cval = weighted_nest (map spline_nodes idx) (item C)"
proof -
  let ?nss = "map (\<lambda>i. [(int i, 1::real), (int i + 1, 4), (int i + 2, 1), (int i + 3, 0)]) idx"
  have pairs: "map (\<lambda>x. map (\<lambda>i. (i, spline_basis (x - of_int i + 1))) (map (\<lambda>k. k + \<lfloor>x\<rfloor>) [0, 1, 2, 3]))
      (map real idx) = ?nss"
    by (simp add: spline_basis_values add.commute)
  have filt: "map (\<lambda>ns. map (\<lambda>(i, w). (nat i, w)) (filter (\<lambda>(i, w). w \<noteq> 0) ns)) ?nss
      = map spline_nodes idx"
    by (simp add: spline_nodes_def nat_add_distrib)
  have rng: "\<forall>k<length ?nss. \<forall>(i, w)\<in>set (?nss ! k).
      w \<noteq> 0 \<longrightarrow> 0 \<le> i \<and> nat i < shape C ! (length ([]::nat list) + k)"
  proof (intro allI impI)
    fix k assume "k < length ?nss"
    then have k: "k < ndim C" using assms(1) by simp
    then have "idx ! k + 2 < shape C ! k" using assms(2) by simp
    then show "\<forall>(i, w)\<in>set (?nss ! k). w \<noteq> 0 \<longrightarrow> 0 \<le> i \<and> nat i < shape C ! (length ([]::nat list) + k)"
      using k assms(1) by auto
  qed
  have "weighted_nest ?nss (\<lambda>rest. gather C mode cval (map int [] @ rest))
      = weighted_nest (map (\<lambda>ns. map (\<lambda>(i, w). (nat i, w)) (filter (\<lambda>(i, w). w \<noteq> 0) ns)) ?nss)
          (\<lambda>rest. item C ([] @ rest))"
    by (rule weighted_nest_gather [OF _ _ rng]) (use assms(1) in simp_all)
  then have "weighted_nest ?nss (gather C mode cval) = weighted_nest (map spline_nodes idx) (item C)"
    unfolding filt by simp
  then show ?thesis
    by (simp only: spline_point_nest pairs)
qed

lemma cubic_spline_at_node:
  assumes "length idx = ndim input"
    and "\<forall>j<ndim input. idx ! j < shape input ! j \<and> 4 \<le> shape input ! j"
    and "map (\<lambda>f. f p) (coords c) = map real idx"
    and "parse_gather_mode mode = Inr m"
  shows "\<exists>r. cubic_spline input c mode cval = Inr r \<and> shape r = coords_shape c
           \<and> item r p = item input idx"
proof -
  have "list_all (\<lambda>s. 3 \<le> s) (shape input)"
    using assms(2) by (auto simp: list_all_length ndim_def intro: order_trans [of 3 4])
  from spline_coefficients_shape [OF this] obtain C where
    C: "spline_coefficients input = Inr C" "shape C = map (\<lambda>s. s + 2) (shape input)" by blast
  have nd: "ndim C = ndim input" using C(2) by (simp add: ndim_def)
  have len: "length idx = ndim C" using assms(1) nd by simp
  have rng: "\<forall>k<ndim C. idx ! k + 2 < shape C ! k"
    using assms(2) nd C(2) by (simp add: ndim_def)
  have axes: "spline_axes (rev [0..<ndim input]) input = Inr C"
    using C(1) by (simp add: spline_coefficients_def)
  have "spline_point C (map real idx) m cval = weighted_nest (map spline_nodes idx) (item C)"
    by (rule spline_point_at_node [OF len rng])
  also have "\<dots> = item input idx"
    using spline_nest_collapse [OF assms(1,2) _ axes] by simp
  finally have "spline_point C (map (\<lambda>f. f p) (coords c)) m cval = item input idx"
    by (simp only: assms(3))
  then show ?thesis by (simp add: cubic_spline_def C(1) assms(4))
qed

lemma example_line_coefficients:
  "solve_coefficients [6, 0, 0] (spline_operator 3) = [2, 1, 0, 0, 0::real]"
  by (simp add: solve_coefficients_def construct_vector_def linear_solve_def spline_operator_def Let_def)

text \<open>
  What holds of the interpolation at grid nodes, in exact arithmetic: where the
  coordinate arrays hold the in-range integer position \<open>idx\<close> at the output point \<open>p\<close>,
  \<open>map_coordinates\<close> returns the input value at \<open>idx\<close> there, for order 0 and order 1
  on every input with at least one axis, and for order 3 on every input whose axes
  all have extent at least 4, whatever the fill value and for every boundary mode that
  the array library knows.
\<close>

theorem map_coordinates_exact_at_nodes:
  assumes "length (coords c) = ndim input" and "0 < ndim input"
    and "length idx = ndim input" and "\<forall>j<ndim input. idx ! j < shape input ! j"
    and "map (\<lambda>f. f p) (coords c) = map real idx"
    and "order = 0 \<or> order = 1 \<or> (order = 3 \<and> list_all (\<lambda>s. 4 \<le> s) (shape input))"
    and "mode \<in> {''clip'', ''fill'', ''drop'', ''promise_in_bounds''}"
  shows "\<exists>r. map_coordinates input c order mode cval = Inr r \<and> shape r = coords_shape c
           \<and> item r p = item input idx"
proof (cases "order = 3")
  case True
  from parse_gather_mode_known [OF assms(7)] obtain m where m: "parse_gather_mode mode = Inr m"
    by blast
  from True assms(6) have "list_all (\<lambda>s. 4 \<le> s) (shape input)" by simp
  then have "\<forall>j<ndim input. idx ! j < shape input ! j \<and> 4 \<le> shape input ! j"
    using assms(4) by (simp add: list_all_length ndim_def)
  from cubic_spline_at_node [OF assms(3) this assms(5) m]
  show ?thesis using True assms(1,2) by (simp add: map_coordinates_def)
next
  case False
  from parse_gather_mode_known [OF assms(7)] obtain m where m: "parse_gather_mode mode = Inr m"
    by blast
  from False assms(6) have ord: "order = 0 \<or> order = 1" by simp
  have ne: "idx \<noteq> []" using assms(2,3) by auto
  have pos: "0 \<notin> set (shape input)"
  proof
    assume "0 \<in> set (shape input)"
    then obtain j where "j < length (shape input)" and "shape input ! j = 0"
      by (auto simp: in_set_conv_nth)
    with assms(4) show False by (auto simp: ndim_def)
  qed
  let ?f = "if order = 0 then nearest_indices_and_weights else linear_indices_and_weights"
  have "interpolate_point ?f input (map real idx) m cval = item input idx"
    by (rule interpolate_point_at_node [OF ne assms(3,4)]) simp
  then show ?thesis
    using ord assms(1,2,5) m pos by (auto simp: map_coordinates_def)
qed

subsection \<open>Order 3 on three samples\<close>

lemma example_line_spline_coefficients:
  "spline_coefficients example_line = Inr example_line_coefficients_array"
proof -
  have bo: "build_operator (int 3 - 2) (4::real) = Inr (spline_operator 3)"
    by (rule build_operator_ok) simp
  have "spline_axes [0] example_line = Inr example_line_coefficients_array"
    using bo by (simp add: example_line_def example_line_coefficients_array_def)
  then show ?thesis by (simp add: spline_coefficients_def ndim_def example_line_def)
qed

lemma example_line_through: "line_through example_line 0 [j] = [6, 0, 0]"
  by (simp add: line_through_def example_line_def upt3)

lemma example_coefficients_item:
  "item example_line_coefficients_array [j] = [2, 1, 0, 0, 0] ! j"
  by (simp add: example_line_coefficients_array_def along_axis_def example_line_through
        example_line_coefficients)

lemma example_coefficients_shape: "shape example_line_coefficients_array = [5]"
proof -
  have nd: "ndim example_line = Suc 0" and sh: "shape example_line = [3]"
    by (simp_all add: ndim_def example_line_def)
  show ?thesis
    by (simp add: example_line_coefficients_array_def along_axis_def nd sh example_line_through
          example_line_coefficients)
qed

lemma example_spline_point:
  "i < 3 \<Longrightarrow> spline_point example_line_coefficients_array [real i] mode cval
     = [2, 1, 0, 0, 0] ! i + 4 * [2, 1, 0, 0, 0] ! Suc i + [2, 1, 0, 0, 0] ! Suc (Suc i)"
  using spline_point_at_node [of "[i]" example_line_coefficients_array mode cval]
  by (simp add: ndim_def example_coefficients_shape spline_nodes_def example_coefficients_item)

text \<open>
  Claim C2. \<open>map_coordinates\<close> at coordinates that are exactly the in-range integer grid
  positions is said to return exactly the input values, for orders 0, 1 and 3. For the
  one-dimensional input \<open>[6, 0, 0]\<close> and the coordinates \<open>0, 1, 2\<close>, order 3 returns
  \<open>[6, 1, 0]\<close>: with three samples the right-hand side of the coefficient system has a
  single row, and \<open>_construct_vector\<close> overwrites its adjustment by the first sample with
  the adjustment by the last.
\<close>

theorem cubic_spline_misses_node_of_three_samples:
  "map_sum id (\<lambda>r. (shape r, item r [0], item r [1], item r [2]))
       (map_coordinates example_line example_nodes 3 ''fill'' 0) = Inr ([3], 6, 1, 0)
   \<and> (shape example_line, item example_line [0], item example_line [1], item example_line [2])
       = ([3], 6, 0, 0)"
proof -
  have r: "map_coordinates example_line example_nodes 3 ''fill'' 0
      = Inr \<lparr>shape = [3], item = (\<lambda>p. spline_point example_line_coefficients_array [real (hd p)] Fill 0)\<rparr>"
  proof -
    have nd: "ndim example_line = 1" by (simp add: ndim_def example_line_def)
    have cs: "coords example_nodes = [\<lambda>p. real (hd p)]" "coords_shape example_nodes = [3]"
      by (simp_all add: example_nodes_def)
    have pm: "parse_gather_mode ''fill'' = Inr Fill" by (simp add: parse_gather_mode_def)
    show ?thesis
      by (simp add: map_coordinates_def cubic_spline_def example_line_spline_coefficients nd cs pm)
  qed
  have p0: "spline_point example_line_coefficients_array [real 0] Fill 0 = 6"
    using example_spline_point [of 0 Fill 0] by simp
  have p1: "spline_point example_line_coefficients_array [real 1] Fill 0 = 1"
    using example_spline_point [of 1 Fill 0] by simp
  have p2: "spline_point example_line_coefficients_array [real 2] Fill 0 = 0"
    using example_spline_point [of 2 Fill 0] by (simp add: numeral_2_eq_2)
  show ?thesis
    unfolding r using p0 p1 p2 by (simp add: example_line_def)
qed

end
